theory Spec2Isabelle
  imports Main
begin

section \<open>Data model\<close>

text \<open>
  The development embeds the two classes of the call signaling core: \<open>RTCManager\<close>
  (src/webrtc/webrtc_rtc-manager.js, the Transport Session Adapter of the specification)
  and \<open>RTCSignaling\<close> (src/unnamed/part_001, the Call Signaling Coordinator).

  JavaScript runs each method to its next \<open>await\<close> without interruption; the model
  takes every method as one atomic step and does not interleave two methods.  What the
  external collaborators answer during a step (the clock, the random generator, the
  transport engine, the callbacks supplied by the caller) is read from an \<open>env\<close> value
  passed to the step.  Their visible effects are kept in the state: the messages handed
  to the secure channel, the calls made on engine connections, the capture tracks, the
  callbacks invoked.
\<close>

type_synonym peerId = string
type_synonym handle = nat
type_synonym trackId = nat

text \<open>
  The values a method can throw: a property read on \<open>null\<close> or \<open>undefined\<close>
  (\<open>TypeError\<close>), the \<open>new Error(`Peer connection not found for ...`)\<close> of the
  manager, a rejection by the transport engine or the capture device (a
  \<open>DOMException\<close>), an object thrown by a function the caller supplies, and the
  values \<open>null\<close> and \<open>undefined\<close> themselves (\<open>Nullish\<close>), which such a
  function may throw or reject with as well.  Every \<open>catch\<close> block of the two classes
  reads \<open>error.message\<close> for its log line; the read throws a \<open>TypeError\<close> on a
  \<open>Nullish\<close> value and returns on every other one.
\<close>

datatype error = TypeError | NotFound peerId | EngineError | CallbackError | Nullish

datatype track_kind = Audio | Video

record track =
  kind :: track_kind
  enabled :: bool
  ended :: bool

text \<open>An \<open>RTCSessionDescriptionInit\<close>: its \<open>type\<close> and its \<open>sdp\<close> (absent when \<open>undefined\<close>).\<close>

datatype description = Description string "string option"

record ice_candidate =
  candidate :: "string option"
  sdpMLineIndex :: "nat option"
  sdpMid :: "string option"

text \<open>
  One \<open>RTCPeerConnection\<close> of the engine.  \<open>senders\<close> are the tracks given to
  \<open>addTrack\<close>: the very track objects of the local stream, referred to by their index
  in the track table, so that two connections share them.
\<close>

record conn =
  senders :: "trackId list"
  localDescription :: "description option"
  remoteDescription :: "description option"
  iceCandidates :: "ice_candidate list"
  connClosed :: bool

text \<open>The calls made on the engine, in the order they are made.\<close>

datatype engine_call =
    CreateOffer handle
  | CreateAnswer handle
  | SetLocalDescription handle description
  | SetRemoteDescription handle description
  | AddIceCandidate handle ice_candidate
  | TrackStop trackId
  | Close handle

text \<open>
  A signaling message, inbound or outbound: the \<open>type\<close> tag, the \<open>timestamp\<close> and the
  payload fields the handlers read; a field the object does not have is \<open>None\<close>.
\<close>

record message =
  m_type :: string
  m_timestamp :: "nat option"
  m_callId :: "string option"
  m_reason :: "string option"
  m_sdp :: "string option"
  m_candidate :: "string option"
  m_sdpMLineIndex :: "nat option"
  m_sdpMid :: "string option"

text \<open>An entry of \<open>activeCalls\<close>.\<close>

record call =
  callId :: "string option"
  initiator :: bool
  startTime :: nat
  state :: string

text \<open>The callbacks of \<open>config\<close> that the coordinator invokes.\<close>

datatype notification =
    OnConnectionStateChange peerId string
  | OnCallRequest peerId "string option"
  | OnCallAccept peerId "string option"
  | OnCallReject peerId "string option" "string option"
  | OnCallEnd peerId "string option"

text \<open>The fields of an \<open>RTCManager\<close>; a map value is the handle of an engine connection.\<close>

record manager =
  peerConnections :: "peerId \<rightharpoonup> handle"
  dataChannels :: "peerId \<rightharpoonup> handle"
  localStream :: "trackId list option"

text \<open>
  The \<open>RTCSignaling\<close> object and the world around it.  \<open>nodeCrypt\<close> is \<open>None\<close> when
  the secure channel is absent and \<open>Some b\<close> when its \<open>isOpen()\<close> answers \<open>b\<close>;
  \<open>rtcManager\<close> is \<open>None\<close> until \<open>initialize\<close> has run.  \<open>outbox\<close> lists the
  \<open>to\<close> and \<open>data\<close> of every \<open>{type: 'rtc:signal', to, data}\<close> given to
  \<open>nodeCrypt.send\<close>, oldest first.
\<close>

record rtc =
  nodeCrypt :: "bool option"
  rtcManager :: "manager option"
  activeCalls :: "peerId \<rightharpoonup> call"
  outbox :: "(peerId \<times> message) list"
  conns :: "conn list"
  tracks :: "track list"
  elog :: "engine_call list"
  events :: "notification list"

text \<open>
  What the collaborators answer during one step: \<open>Date.now()\<close>, the nine characters
  taken from \<open>Math.random().toString(36)\<close>, the tracks \<open>getUserMedia\<close> resolves with
  (or its rejection), whether \<open>new RTCPeerConnection\<close> returns, the \<open>sdp\<close> that
  \<open>createOffer\<close> and \<open>createAnswer\<close> resolve with (or their rejection), whether
  \<open>setLocalDescription\<close>, \<open>setRemoteDescription\<close> and \<open>addIceCandidate\<close> resolve,
  whether the caller's callback returns, and the value it throws when it does not.
\<close>

record env =
  now :: nat
  random :: string
  media :: "track_kind list option"
  construct_ok :: bool
  offer_sdp :: "string option"
  answer_sdp :: "string option"
  set_local_ok :: bool
  set_remote_ok :: bool
  add_ice_ok :: bool
  callback_ok :: bool
  callback_thrown :: error

section \<open>RTCSignaling.sendSignalingMessage\<close>

definition empty_message :: message where
  "empty_message =
     \<lparr>m_type = [], m_timestamp = None, m_callId = None, m_reason = None, m_sdp = None,
      m_candidate = None, m_sdpMLineIndex = None, m_sdpMid = None\<rparr>"

text \<open>
  \<open>{type: messageType, timestamp: Date.now(), ...payload}\<close>.  The payload is given as a
  message whose tag and timestamp are not read: no payload built in this repository has
  a \<open>type\<close> or a \<open>timestamp\<close> of its own.
\<close>

definition build_message :: "env \<Rightarrow> string \<Rightarrow> message \<Rightarrow> message" where
  "build_message e messageType payload =
     payload\<lparr>m_type := messageType, m_timestamp := Some (now e)\<rparr>"

text \<open>
  The message is given to \<open>nodeCrypt.send\<close> only under the guard
  \<open>this.nodeCrypt && this.nodeCrypt.isOpen()\<close>; the method has no other branch and
  returns \<open>undefined\<close> on both.
\<close>

definition sendSignalingMessage :: "env \<Rightarrow> peerId \<Rightarrow> string \<Rightarrow> message \<Rightarrow> rtc \<Rightarrow> rtc" where
  "sendSignalingMessage e peerId messageType payload s =
     (let msg = build_message e messageType payload
      in if nodeCrypt s = Some True
         then s\<lparr>outbox := outbox s @ [(peerId, msg)]\<rparr>
         else s)"

section \<open>RTCManager\<close>

text \<open>
  A method of the manager is modelled as the coordinator's call of it,
  \<open>this.rtcManager.method(...)\<close>: the call throws a \<open>TypeError\<close> when \<open>rtcManager\<close>
  is still \<open>null\<close>.  The callbacks of the manager are those \<open>RTCSignaling.initialize\<close>
  installs, the only construction of a manager in the repository.
\<close>

definition update_conn :: "handle \<Rightarrow> (conn \<Rightarrow> conn) \<Rightarrow> conn list \<Rightarrow> conn list" where
  "update_conn h f cs = (if h < length cs then cs[h := f (cs ! h)] else cs)"

definition stop_track :: "trackId \<Rightarrow> track list \<Rightarrow> track list" where
  "stop_track t ts = (if t < length ts then ts[t := (ts ! t)\<lparr>ended := True\<rparr>] else ts)"

primrec stop_tracks :: "trackId list \<Rightarrow> track list \<Rightarrow> track list" where
  "stop_tracks [] ts = ts"
| "stop_tracks (t # rest) ts = stop_tracks rest (stop_track t ts)"

definition new_track :: "track_kind \<Rightarrow> track" where
  "new_track k = \<lparr>kind = k, enabled = True, ended = False\<rparr>"

text \<open>
  \<open>initLocalStream\<close>: \<open>getUserMedia\<close> resolves with fresh live tracks, which become
  \<open>this.localStream\<close>, or rejects, and the error is rethrown.
\<close>

definition initLocalStream :: "env \<Rightarrow> rtc \<Rightarrow> (error + trackId list) \<times> rtc" where
  "initLocalStream e s =
     (case rtcManager s of
        None \<Rightarrow> (Inl TypeError, s)
      | Some m \<Rightarrow>
          (case media e of
             None \<Rightarrow> (Inl EngineError, s)
           | Some kinds \<Rightarrow>
               (let ids = [length (tracks s) ..< length (tracks s) + length kinds]
                in (Inr ids,
                    s\<lparr>tracks := tracks s @ map new_track kinds,
                      rtcManager := Some (m\<lparr>localStream := Some ids\<rparr>)\<rparr>))))"

text \<open>
  \<open>createPeerConnection\<close>: a new connection, every track of the local stream added to
  it, the \<open>signal\<close> data channel when \<open>isInitiator\<close>, and
  \<open>this.peerConnections.set(peerId, peerConnection)\<close>.  The method does not look at
  \<open>peerConnections\<close> before it writes.  \<open>addTrack\<close> and \<open>createDataChannel\<close> on a
  connection that was just created are taken to return.
\<close>

definition createPeerConnection :: "env \<Rightarrow> peerId \<Rightarrow> bool \<Rightarrow> rtc \<Rightarrow> (error + handle) \<times> rtc" where
  "createPeerConnection e peerId isInitiator s =
     (case rtcManager s of
        None \<Rightarrow> (Inl TypeError, s)
      | Some m \<Rightarrow>
          if \<not> construct_ok e then (Inl EngineError, s)
          else
            (let h = length (conns s);
                 pc = \<lparr>senders = (case localStream m of None \<Rightarrow> [] | Some ts \<Rightarrow> ts),
                       localDescription = None, remoteDescription = None,
                       iceCandidates = [], connClosed = False\<rparr>;
                 dcs = (if isInitiator then (dataChannels m)(peerId \<mapsto> h) else dataChannels m)
             in (Inr h,
                 s\<lparr>conns := conns s @ [pc],
                   rtcManager := Some (m\<lparr>peerConnections := (peerConnections m)(peerId \<mapsto> h),
                                         dataChannels := dcs\<rparr>)\<rparr>)))"

text \<open>
  \<open>createOffer\<close>: \<open>createOffer\<close> and \<open>setLocalDescription\<close> on the peer's connection,
  then the \<open>onOffer\<close> callback, which sends \<open>rtc:offer\<close>.  Every failure is rethrown.
\<close>

definition createOffer :: "env \<Rightarrow> peerId \<Rightarrow> rtc \<Rightarrow> (error + string) \<times> rtc" where
  "createOffer e peerId s =
     (case rtcManager s of
        None \<Rightarrow> (Inl TypeError, s)
      | Some m \<Rightarrow>
          (case peerConnections m peerId of
             None \<Rightarrow> (Inl (NotFound peerId), s)
           | Some h \<Rightarrow>
               (let s1 = s\<lparr>elog := elog s @ [CreateOffer h]\<rparr>
                in case offer_sdp e of
                     None \<Rightarrow> (Inl EngineError, s1)
                   | Some sdp \<Rightarrow>
                       (let d = Description ''offer'' (Some sdp);
                            s2 = s1\<lparr>elog := elog s1 @ [SetLocalDescription h d]\<rparr>
                        in if \<not> set_local_ok e then (Inl EngineError, s2)
                           else
                             (let s3 = s2\<lparr>conns := update_conn h (\<lambda>c. c\<lparr>localDescription := Some d\<rparr>) (conns s2)\<rparr>
                              in (Inr sdp,
                                  sendSignalingMessage e peerId ''rtc:offer''
                                    (empty_message\<lparr>m_sdp := Some sdp\<rparr>) s3))))))"

text \<open>
  \<open>RTCManager.handleOffer\<close>: \<open>setRemoteDescription\<close>, \<open>createAnswer\<close>,
  \<open>setLocalDescription\<close>, then the \<open>onAnswer\<close> callback, which sends \<open>rtc:answer\<close>.
\<close>

definition RTCManager_handleOffer :: "env \<Rightarrow> peerId \<Rightarrow> description \<Rightarrow> rtc \<Rightarrow> (error + string) \<times> rtc" where
  "RTCManager_handleOffer e peerId offer s =
     (case rtcManager s of
        None \<Rightarrow> (Inl TypeError, s)
      | Some m \<Rightarrow>
          (case peerConnections m peerId of
             None \<Rightarrow> (Inl (NotFound peerId), s)
           | Some h \<Rightarrow>
               (let s1 = s\<lparr>elog := elog s @ [SetRemoteDescription h offer]\<rparr>
                in if \<not> set_remote_ok e then (Inl EngineError, s1)
                   else
                     (let s2 = s1\<lparr>conns := update_conn h (\<lambda>c. c\<lparr>remoteDescription := Some offer\<rparr>) (conns s1),
                                   elog := elog s1 @ [CreateAnswer h]\<rparr>
                      in case answer_sdp e of
                           None \<Rightarrow> (Inl EngineError, s2)
                         | Some sdp \<Rightarrow>
                             (let d = Description ''answer'' (Some sdp);
                                  s3 = s2\<lparr>elog := elog s2 @ [SetLocalDescription h d]\<rparr>
                              in if \<not> set_local_ok e then (Inl EngineError, s3)
                                 else
                                   (let s4 = s3\<lparr>conns := update_conn h (\<lambda>c. c\<lparr>localDescription := Some d\<rparr>) (conns s3)\<rparr>
                                    in (Inr sdp,
                                        sendSignalingMessage e peerId ''rtc:answer''
                                          (empty_message\<lparr>m_sdp := Some sdp\<rparr>) s4)))))))"

text \<open>\<open>RTCManager.handleAnswer\<close>: \<open>setRemoteDescription\<close> on the peer's connection.\<close>

definition RTCManager_handleAnswer :: "env \<Rightarrow> peerId \<Rightarrow> description \<Rightarrow> rtc \<Rightarrow> (error + unit) \<times> rtc" where
  "RTCManager_handleAnswer e peerId answer s =
     (case rtcManager s of
        None \<Rightarrow> (Inl TypeError, s)
      | Some m \<Rightarrow>
          (case peerConnections m peerId of
             None \<Rightarrow> (Inl (NotFound peerId), s)
           | Some h \<Rightarrow>
               (let s1 = s\<lparr>elog := elog s @ [SetRemoteDescription h answer]\<rparr>
                in if \<not> set_remote_ok e then (Inl EngineError, s1)
                   else (Inr (),
                         s1\<lparr>conns := update_conn h (\<lambda>c. c\<lparr>remoteDescription := Some answer\<rparr>) (conns s1)\<rparr>))))"

text \<open>
  \<open>addIceCandidate\<close>: the candidate goes to the connection's \<open>addIceCandidate\<close> in the
  same call, whatever the connection's remote description.  The \<open>catch\<close> block logs
  and does not rethrow: a missing connection and a rejection by the engine both end in
  a normal return.  There is no field in which a candidate could wait.
\<close>

definition addIceCandidate :: "env \<Rightarrow> peerId \<Rightarrow> ice_candidate option \<Rightarrow> rtc \<Rightarrow> (error + unit) \<times> rtc" where
  "addIceCandidate e peerId cand s =
     (case rtcManager s of
        None \<Rightarrow> (Inl TypeError, s)
      | Some m \<Rightarrow>
          (case peerConnections m peerId of
             None \<Rightarrow> (Inr (), s)
           | Some h \<Rightarrow>
               (case cand of
                  None \<Rightarrow> (Inr (), s)
                | Some c \<Rightarrow>
                    (let s1 = s\<lparr>elog := elog s @ [AddIceCandidate h c]\<rparr>
                     in if \<not> add_ice_ok e then (Inr (), s1)
                        else (Inr (),
                              s1\<lparr>conns := update_conn h (\<lambda>k. k\<lparr>iceCandidates := iceCandidates k @ [c]\<rparr>) (conns s1)\<rparr>)))))"

text \<open>
  \<open>closePeerConnection\<close>: nothing for a peer without a registered connection;
  otherwise \<open>sender.track.stop()\<close> for every sender, \<open>close()\<close>, and the peer's entries
  leave both maps.
\<close>

definition closePeerConnection :: "peerId \<Rightarrow> rtc \<Rightarrow> (error + unit) \<times> rtc" where
  "closePeerConnection peerId s =
     (case rtcManager s of
        None \<Rightarrow> (Inl TypeError, s)
      | Some m \<Rightarrow>
          (case peerConnections m peerId of
             None \<Rightarrow> (Inr (), s)
           | Some h \<Rightarrow>
               (let ss = (if h < length (conns s) then senders (conns s ! h) else [])
                in (Inr (),
                    s\<lparr>tracks := stop_tracks ss (tracks s),
                      conns := update_conn h (\<lambda>c. c\<lparr>connClosed := True\<rparr>) (conns s),
                      elog := elog s @ map TrackStop ss @ [Close h],
                      rtcManager := Some (m\<lparr>peerConnections := (peerConnections m)(peerId := None),
                                            dataChannels := (dataChannels m)(peerId := None)\<rparr>)\<rparr>))))"

text \<open>\<open>stopLocalStream\<close>, the first step of \<open>destroy\<close>: every track of the stream is stopped and the stream is forgotten.\<close>

definition stopLocalStream :: "rtc \<Rightarrow> (error + unit) \<times> rtc" where
  "stopLocalStream s =
     (case rtcManager s of
        None \<Rightarrow> (Inl TypeError, s)
      | Some m \<Rightarrow>
          (case localStream m of
             None \<Rightarrow> (Inr (), s)
           | Some ts \<Rightarrow>
               (Inr (),
                s\<lparr>tracks := stop_tracks ts (tracks s),
                  elog := elog s @ map TrackStop ts,
                  rtcManager := Some (m\<lparr>localStream := None\<rparr>)\<rparr>)))"

text \<open>
  \<open>toggleAudio\<close> and \<open>toggleVideo\<close>: \<open>track.enabled = enabled\<close> for the audio
  (video) tracks of the local stream, if there is one.
\<close>

primrec set_enabled :: "track_kind \<Rightarrow> bool \<Rightarrow> trackId list \<Rightarrow> track list \<Rightarrow> track list" where
  "set_enabled k flag [] ts = ts"
| "set_enabled k flag (t # rest) ts =
     set_enabled k flag rest
       (if t < length ts \<and> kind (ts ! t) = k then ts[t := (ts ! t)\<lparr>enabled := flag\<rparr>] else ts)"

definition toggle :: "track_kind \<Rightarrow> bool \<Rightarrow> rtc \<Rightarrow> (error + unit) \<times> rtc" where
  "toggle k flag s =
     (case rtcManager s of
        None \<Rightarrow> (Inl TypeError, s)
      | Some m \<Rightarrow>
          (case localStream m of
             None \<Rightarrow> (Inr (), s)
           | Some ts \<Rightarrow> (Inr (), s\<lparr>tracks := set_enabled k flag ts (tracks s)\<rparr>)))"

definition toggleAudio :: "bool \<Rightarrow> rtc \<Rightarrow> (error + unit) \<times> rtc" where
  "toggleAudio flag s = toggle Audio flag s"

definition toggleVideo :: "bool \<Rightarrow> rtc \<Rightarrow> (error + unit) \<times> rtc" where
  "toggleVideo flag s = toggle Video flag s"

text \<open>
  The \<open>onconnectionstatechange\<close> handler that \<open>createPeerConnection\<close> installs on the
  connection of \<open>peerId\<close>, run when the engine reports \<open>connectionState\<close>.  It calls
  the \<open>onConnectionStateChange\<close> callback, which the coordinator forwards to
  \<open>config.onConnectionStateChange\<close> and which reads or writes nothing else, and then
  closes the peer's connection on \<open>failed\<close> and \<open>disconnected\<close>.  An exception of the
  caller's callback leaves the handler before the test.
\<close>

definition onconnectionstatechange :: "env \<Rightarrow> peerId \<Rightarrow> string \<Rightarrow> rtc \<Rightarrow> (error + unit) \<times> rtc" where
  "onconnectionstatechange e peerId connectionState s =
     (let s1 = s\<lparr>events := events s @ [OnConnectionStateChange peerId connectionState]\<rparr>
      in if \<not> callback_ok e then (Inl (callback_thrown e), s1)
         else if connectionState = ''failed'' \<or> connectionState = ''disconnected''
              then closePeerConnection peerId s1
              else (Inr (), s1))"

section \<open>RTCSignaling\<close>

text \<open>The constructor: the secure channel it is given, no manager yet, no call.\<close>

definition RTCSignaling_new :: "bool option \<Rightarrow> rtc" where
  "RTCSignaling_new nc =
     \<lparr>nodeCrypt = nc, rtcManager = None, activeCalls = Map.empty, outbox = [],
      conns = [], tracks = [], elog = [], events = []\<rparr>"

text \<open>\<open>initialize\<close>: a new manager, then the capture of the local stream; a failure is rethrown.\<close>

definition initialize :: "env \<Rightarrow> rtc \<Rightarrow> (error + bool) \<times> rtc" where
  "initialize e s =
     (let s1 = s\<lparr>rtcManager := Some \<lparr>peerConnections = Map.empty, dataChannels = Map.empty,
                                     localStream = None\<rparr>\<rparr>
      in case initLocalStream e s1 of
           (Inl er, s2) \<Rightarrow> (Inl er, s2)
         | (Inr ids, s2) \<Rightarrow> (Inr True, s2))"

fun decimal :: "nat \<Rightarrow> string" where
  "decimal n =
     (if n < 10 then [char_of (48 + n)]
      else decimal (n div 10) @ [char_of (48 + n mod 10)])"

declare decimal.simps [simp del]

text \<open>\<open>`call_${Date.now()}_${Math.random().toString(36).substr(2, 9)}`\<close>\<close>

definition generateCallId :: "env \<Rightarrow> string" where
  "generateCallId e = ''call_'' @ decimal (now e) @ ''_'' @ random e"

text \<open>\<open>callId || this.generateCallId()\<close>: \<open>null\<close> and the empty string are falsy.\<close>

definition callId_or_generated :: "env \<Rightarrow> string option \<Rightarrow> string" where
  "callId_or_generated e given =
     (case given of
        None \<Rightarrow> generateCallId e
      | Some c \<Rightarrow> if c = [] then generateCallId e else c)"

text \<open>
  \<open>initiateCall\<close>: the call request is sent first; the connection and the offer follow;
  the call record is written last.  The \<open>catch\<close> block logs and rethrows, and does
  nothing else.  The method reads neither \<open>activeCalls\<close> nor \<open>peerConnections\<close>
  before it starts.
\<close>

definition initiateCall :: "env \<Rightarrow> peerId \<Rightarrow> string option \<Rightarrow> rtc \<Rightarrow> (error + string) \<times> rtc" where
  "initiateCall e peerId given s =
     (let cid = callId_or_generated e given;
          s1 = sendSignalingMessage e peerId ''rtc:call-request''
                 (empty_message\<lparr>m_callId := Some cid\<rparr>) s
      in case createPeerConnection e peerId True s1 of
           (Inl er, s2) \<Rightarrow> (Inl er, s2)
         | (Inr h, s2) \<Rightarrow>
             (case createOffer e peerId s2 of
                (Inl er, s3) \<Rightarrow> (Inl er, s3)
              | (Inr sdp, s3) \<Rightarrow>
                  (Inr cid,
                   s3\<lparr>activeCalls := (activeCalls s3)(peerId \<mapsto>
                        \<lparr>callId = Some cid, initiator = True, startTime = now e,
                         state = ''connecting''\<rparr>)\<rparr>)))"

definition acceptCall :: "env \<Rightarrow> peerId \<Rightarrow> string option \<Rightarrow> rtc \<Rightarrow> (error + unit) \<times> rtc" where
  "acceptCall e peerId cid s =
     (case createPeerConnection e peerId False s of
        (Inl er, s1) \<Rightarrow> (Inl er, s1)
      | (Inr h, s1) \<Rightarrow>
          (let s2 = sendSignalingMessage e peerId ''rtc:call-accept''
                      (empty_message\<lparr>m_callId := cid\<rparr>) s1
           in (Inr (),
               s2\<lparr>activeCalls := (activeCalls s2)(peerId \<mapsto>
                    \<lparr>callId = cid, initiator = False, startTime = now e,
                     state = ''connecting''\<rparr>)\<rparr>)))"

text \<open>
  \<open>rejectCall\<close>: one \<open>sendSignalingMessage\<close>, then \<open>activeCalls.delete(peerId)\<close>.
  The default \<open>'user-rejected'\<close> stands in for a reason that is not passed.
\<close>

definition rejectCall :: "env \<Rightarrow> peerId \<Rightarrow> string option \<Rightarrow> string option \<Rightarrow> rtc \<Rightarrow> rtc" where
  "rejectCall e peerId cid reason s =
     (let r = (case reason of None \<Rightarrow> ''user-rejected'' | Some x \<Rightarrow> x);
          s1 = sendSignalingMessage e peerId ''rtc:call-reject''
                 (empty_message\<lparr>m_callId := cid, m_reason := Some r\<rparr>) s
      in s1\<lparr>activeCalls := (activeCalls s1)(peerId := None)\<rparr>)"

text \<open>
  \<open>endCall\<close>: only for a peer with a call record: the \<open>rtc:call-end\<close> message, the
  closing of the peer's connection, the deletion of the record.
\<close>

definition endCall :: "env \<Rightarrow> peerId \<Rightarrow> rtc \<Rightarrow> (error + unit) \<times> rtc" where
  "endCall e peerId s =
     (case activeCalls s peerId of
        None \<Rightarrow> (Inr (), s)
      | Some c \<Rightarrow>
          (let s1 = sendSignalingMessage e peerId ''rtc:call-end''
                      (empty_message\<lparr>m_callId := callId c\<rparr>) s
           in case closePeerConnection peerId s1 of
                (Inl er, s2) \<Rightarrow> (Inl er, s2)
              | (Inr u, s2) \<Rightarrow> (Inr (), s2\<lparr>activeCalls := (activeCalls s2)(peerId := None)\<rparr>)))"

text \<open>\<open>endCall\<close> called again and again, each call with the answers of its own step.\<close>

primrec endCall_repeated :: "env list \<Rightarrow> peerId \<Rightarrow> rtc \<Rightarrow> rtc" where
  "endCall_repeated [] peerId s = s"
| "endCall_repeated (e # es) peerId s = endCall_repeated es peerId (snd (endCall e peerId s))"

subsection \<open>The handlers of inbound messages\<close>

type_synonym handler = "env \<Rightarrow> peerId \<Rightarrow> message \<Rightarrow> rtc \<Rightarrow> (error + unit) \<times> rtc"

text \<open>
  \<open>handleOffer\<close>, \<open>handleAnswer\<close> and \<open>handleIceCandidate\<close> wrap their body in a
  \<open>try\<close> whose \<open>catch\<close> only logs: they return normally with whatever the body did
  before it failed.  What their body can throw comes from the manager and the engine
  and is never \<open>Nullish\<close>.
\<close>

definition handleOffer :: handler where
  "handleOffer e peerId msg s =
     (let d = Description ''offer'' (m_sdp msg)
      in case rtcManager s of
           None \<Rightarrow> (Inr (), s)
         | Some m \<Rightarrow>
             (case peerConnections m peerId of
                None \<Rightarrow>
                  (case createPeerConnection e peerId False s of
                     (Inl er, s1) \<Rightarrow> (Inr (), s1)
                   | (Inr h, s1) \<Rightarrow>
                       (case RTCManager_handleOffer e peerId d s1 of
                          (Inl er, s2) \<Rightarrow> (Inr (), s2)
                        | (Inr a, s2) \<Rightarrow> (Inr (), s2)))
              | Some h \<Rightarrow>
                  (case RTCManager_handleOffer e peerId d s of
                     (Inl er, s2) \<Rightarrow> (Inr (), s2)
                   | (Inr a, s2) \<Rightarrow> (Inr (), s2))))"

definition handleAnswer :: handler where
  "handleAnswer e peerId msg s =
     (case RTCManager_handleAnswer e peerId (Description ''answer'' (m_sdp msg)) s of
        (Inl er, s1) \<Rightarrow> (Inr (), s1)
      | (Inr u, s1) \<Rightarrow> (Inr (), s1))"

definition handleIceCandidate :: handler where
  "handleIceCandidate e peerId msg s =
     (let c = \<lparr>candidate = m_candidate msg, sdpMLineIndex = m_sdpMLineIndex msg,
               sdpMid = m_sdpMid msg\<rparr>
      in case addIceCandidate e peerId (Some c) s of
           (Inl er, s1) \<Rightarrow> (Inr (), s1)
         | (Inr u, s1) \<Rightarrow> (Inr (), s1))"

text \<open>
  The four call handlers have no \<open>try\<close> of their own: an exception of the caller's
  callback, or of the call on a manager that does not exist yet, leaves the handler.
\<close>

definition handleCallRequest :: handler where
  "handleCallRequest e peerId msg s =
     (let s1 = s\<lparr>events := events s @ [OnCallRequest peerId (m_callId msg)]\<rparr>
      in if \<not> callback_ok e then (Inl (callback_thrown e), s1) else (Inr (), s1))"

definition handleCallAccept :: handler where
  "handleCallAccept e peerId msg s =
     (let s1 = s\<lparr>events := events s @ [OnCallAccept peerId (m_callId msg)]\<rparr>
      in if \<not> callback_ok e then (Inl (callback_thrown e), s1) else (Inr (), s1))"

definition handleCallReject :: handler where
  "handleCallReject e peerId msg s =
     (let s1 = s\<lparr>events := events s @ [OnCallReject peerId (m_callId msg) (m_reason msg)]\<rparr>
      in if \<not> callback_ok e then (Inl (callback_thrown e), s1)
         else closePeerConnection peerId (s1\<lparr>activeCalls := (activeCalls s1)(peerId := None)\<rparr>))"

definition handleCallEnd :: handler where
  "handleCallEnd e peerId msg s =
     (let s1 = s\<lparr>events := events s @ [OnCallEnd peerId (m_callId msg)]\<rparr>
      in if \<not> callback_ok e then (Inl (callback_thrown e), s1)
         else closePeerConnection peerId (s1\<lparr>activeCalls := (activeCalls s1)(peerId := None)\<rparr>))"

text \<open>
  \<open>this.messageHandlers\<close> as the constructor fills it.  \<open>registerMessageHandler\<close> may
  add any function, so the table is a parameter of the dispatch.
\<close>

definition registered_types :: "string list" where
  "registered_types =
     [''rtc:offer'', ''rtc:answer'', ''rtc:ice-candidate'', ''rtc:call-request'',
      ''rtc:call-accept'', ''rtc:call-reject'', ''rtc:call-end'']"

definition messageHandlers :: "string \<Rightarrow> handler option" where
  "messageHandlers t =
     (if t = ''rtc:offer'' then Some handleOffer
      else if t = ''rtc:answer'' then Some handleAnswer
      else if t = ''rtc:ice-candidate'' then Some handleIceCandidate
      else if t = ''rtc:call-request'' then Some handleCallRequest
      else if t = ''rtc:call-accept'' then Some handleCallAccept
      else if t = ''rtc:call-reject'' then Some handleCallReject
      else if t = ''rtc:call-end'' then Some handleCallEnd
      else None)"

definition registerMessageHandler ::
  "string \<Rightarrow> handler \<Rightarrow> (string \<Rightarrow> handler option) \<Rightarrow> (string \<Rightarrow> handler option)" where
  "registerMessageHandler t h tbl = tbl(t \<mapsto> h)"

text \<open>
  The table is an object literal, so \<open>this.messageHandlers[message.type]\<close> also finds
  the members it inherits from \<open>Object.prototype\<close>.  Called as \<open>handler(peerId,
  message)\<close>, without a receiver, \<open>constructor\<close>, \<open>toString\<close> and \<open>isPrototypeOf\<close>
  return and the others throw a \<open>TypeError\<close>; none of them touches the coordinator.
\<close>

definition object_prototype_members :: "string list" where
  "object_prototype_members =
     [''constructor'', ''toString'', ''isPrototypeOf'', ''toLocaleString'', ''valueOf'',
      ''hasOwnProperty'', ''propertyIsEnumerable'', ''__proto__'', ''__defineGetter__'',
      ''__defineSetter__'', ''__lookupGetter__'', ''__lookupSetter__'']"

definition inherited_member :: "string \<Rightarrow> handler" where
  "inherited_member t e peerId msg s =
     (if t = ''constructor'' \<or> t = ''toString'' \<or> t = ''isPrototypeOf''
      then (Inr (), s) else (Inl TypeError, s))"

definition lookup_handler :: "(string \<Rightarrow> handler option) \<Rightarrow> string \<Rightarrow> handler option" where
  "lookup_handler tbl t =
     (case tbl t of
        Some h \<Rightarrow> Some h
      | None \<Rightarrow> if t \<in> set object_prototype_members then Some (inherited_member t) else None)"

text \<open>
  \<open>handleSignalingMessage\<close>: \<open>message.type\<close> is read outside the \<open>try\<close> (a message
  that is \<open>null\<close> or \<open>undefined\<close> throws there); a handler that is found runs inside
  it.  The \<open>catch\<close> block builds its log line from \<open>error.message\<close> and returns;
  when the handler threw or rejected with \<open>null\<close> or \<open>undefined\<close>, that read
  throws a \<open>TypeError\<close>, which leaves the method.
\<close>

definition handleSignalingMessage ::
  "(string \<Rightarrow> handler option) \<Rightarrow> env \<Rightarrow> peerId \<Rightarrow> message option \<Rightarrow> rtc \<Rightarrow> (error + unit) \<times> rtc" where
  "handleSignalingMessage tbl e peerId message s =
     (case message of
        None \<Rightarrow> (Inl TypeError, s)
      | Some msg \<Rightarrow>
          (case lookup_handler tbl (m_type msg) of
             None \<Rightarrow> (Inr (), s)
           | Some h \<Rightarrow>
               (case h e peerId msg s of
                  (Inl er, s1) \<Rightarrow> (if er = Nullish then Inl TypeError else Inr (), s1)
                | (Inr u, s1) \<Rightarrow> (Inr (), s1))))"

section \<open>Observations and scenarios\<close>

text \<open>The connection registered for a peer, if the manager exists and has one.\<close>

definition session_of :: "rtc \<Rightarrow> peerId \<Rightarrow> handle option" where
  "session_of s peerId =
     (case rtcManager s of None \<Rightarrow> None | Some m \<Rightarrow> peerConnections m peerId)"

text \<open>The candidates handed to the engine, with the connection that got them, in order.\<close>

fun candidates_given :: "engine_call list \<Rightarrow> (handle \<times> ice_candidate) list" where
  "candidates_given [] = []"
| "candidates_given (AddIceCandidate h c # rest) = (h, c) # candidates_given rest"
| "candidates_given (x # rest) = candidates_given rest"

text \<open>A step in which every collaborator succeeds, and one in which \<open>createOffer\<close> is rejected.\<close>

definition env0 :: env where
  "env0 =
     \<lparr>now = 1000, random = ''k3x9q2m7p'', media = Some [Audio, Video], construct_ok = True,
      offer_sdp = Some ''o1'', answer_sdp = Some ''a1'', set_local_ok = True,
      set_remote_ok = True, add_ice_ok = True, callback_ok = True,
      callback_thrown = CallbackError\<rparr>"

definition env_no_offer :: env where
  "env_no_offer = env0\<lparr>offer_sdp := None\<rparr>"

text \<open>
  The coordinator after \<open>initialize\<close>, with an audio and a video track captured; then
  after \<open>initiateCall('bob', 'c1')\<close>; after \<open>acceptCall('bob', 'c1')\<close> instead; and with
  calls to both \<open>bob\<close> and \<open>carol\<close>.
\<close>

definition ready :: "bool option \<Rightarrow> rtc" where
  "ready nc = snd (initialize env0 (RTCSignaling_new nc))"

definition calling :: "bool option \<Rightarrow> rtc" where
  "calling nc = snd (initiateCall env0 ''bob'' (Some ''c1'') (ready nc))"

definition accepted :: rtc where
  "accepted = snd (acceptCall env0 ''bob'' (Some ''c1'') (ready (Some True)))"

definition two_calls :: rtc where
  "two_calls = snd (initiateCall env0 ''carol'' (Some ''c2'') (calling (Some True)))"

definition ice1 :: ice_candidate where
  "ice1 = \<lparr>candidate = Some ''candidate:1 1 udp 2122260223 192.0.2.1 54321 typ host'',
           sdpMLineIndex = Some 0, sdpMid = Some ''0''\<rparr>"

definition ice_message :: message where
  "ice_message =
     empty_message\<lparr>m_type := ''rtc:ice-candidate'', m_timestamp := Some 990,
       m_candidate := candidate ice1, m_sdpMLineIndex := sdpMLineIndex ice1,
       m_sdpMid := sdpMid ice1\<rparr>"

definition offer_message :: message where
  "offer_message =
     empty_message\<lparr>m_type := ''rtc:offer'', m_timestamp := Some 995, m_sdp := Some ''o9''\<rparr>"

text \<open>The connections on which \<open>close()\<close> was called, in order.\<close>

fun closures :: "engine_call list \<Rightarrow> handle list" where
  "closures [] = []"
| "closures (Close h # rest) = h # closures rest"
| "closures (x # rest) = closures rest"

text \<open>
  A candidate from \<open>bob\<close> arrives after \<open>acceptCall\<close> has opened his session and
  before his offer; then the offer arrives.  In \<open>unheard_candidate\<close> the same two
  messages reach a coordinator that has no session for \<open>bob\<close> yet.
\<close>

definition early_candidate :: rtc where
  "early_candidate = snd (handleSignalingMessage messageHandlers env0 ''bob'' (Some ice_message) accepted)"

definition then_offer :: rtc where
  "then_offer = snd (handleSignalingMessage messageHandlers env0 ''bob'' (Some offer_message) early_candidate)"

definition unheard_candidate :: rtc where
  "unheard_candidate =
     snd (handleSignalingMessage messageHandlers env0 ''bob'' (Some offer_message)
       (snd (handleSignalingMessage messageHandlers env0 ''bob'' (Some ice_message)
          (ready (Some True)))))"

text \<open>
  The call to \<open>bob\<close> after the engine has reported \<open>failed\<close> on his connection.
\<close>

definition dropped :: rtc where
  "dropped = snd (onconnectionstatechange env0 ''bob'' ''failed'' (calling (Some True)))"

text \<open>
  A step in which the caller's callback throws \<open>undefined\<close>; an incoming call request;
  and a message type of the application with a handler \<open>(peerId, message) =>
  Promise.reject()\<close>, which rejects with \<open>undefined\<close> and touches nothing.
\<close>

definition env_throws_undefined :: env where
  "env_throws_undefined = env0\<lparr>callback_ok := False, callback_thrown := Nullish\<rparr>"

definition call_request_message :: message where
  "call_request_message = empty_message\<lparr>m_type := ''rtc:call-request'', m_callId := Some ''c7''\<rparr>"

definition ping_message :: message where
  "ping_message = empty_message\<lparr>m_type := ''app:ping''\<rparr>"

definition rejecting_handler :: handler where
  "rejecting_handler e peerId msg s = (Inl Nullish, s)"

text \<open>
  Two views of the state for the local stream: the tracks with the connections and the
  manager, and the tracks with the \<open>localStream\<close> handle of the manager.
\<close>

definition media_part :: "rtc \<Rightarrow> track list \<times> conn list \<times> manager option" where
  "media_part s = (tracks s, conns s, rtcManager s)"

definition local_media :: "rtc \<Rightarrow> track list \<times> trackId list option option" where
  "local_media s = (tracks s, map_option localStream (rtcManager s))"

section \<open>Outbound sends\<close>

text \<open>
  C10.  When the secure channel is absent (\<open>nodeCrypt\<close> is \<open>null\<close>) or its \<open>isOpen()\<close>
  answers false, \<open>sendSignalingMessage\<close> returns with the coordinator, the adapter and
  the outbox exactly as they were: the message is dropped, nothing is thrown, and the
  method has no return value from which its caller could learn of it.
\<close>

theorem sendSignalingMessage_discarded:
  "nodeCrypt s \<noteq> Some True \<Longrightarrow> sendSignalingMessage e peerId messageType payload s = s"
  by (simp add: sendSignalingMessage_def)

theorem sendSignalingMessage_discarded_witness:
  "sendSignalingMessage env0 ''bob'' ''rtc:call-end'' empty_message (RTCSignaling_new None)
     = RTCSignaling_new None
   \<and> sendSignalingMessage env0 ''bob'' ''rtc:call-end'' empty_message (ready (Some False))
     = ready (Some False)"
proof -
  have absent: "nodeCrypt (RTCSignaling_new None) \<noteq> Some True"
    by (simp add: RTCSignaling_new_def)
  have not_open: "nodeCrypt (ready (Some False)) \<noteq> Some True"
    by (simp add: ready_def initialize_def initLocalStream_def RTCSignaling_new_def env0_def Let_def)
  show ?thesis
    using sendSignalingMessage_discarded [OF absent] sendSignalingMessage_discarded [OF not_open]
    by simp
qed

text \<open>The scenario state \<open>ready\<close>, written out.\<close>

lemma ready_eq:
  "ready nc =
     \<lparr>nodeCrypt = nc,
      rtcManager = Some \<lparr>peerConnections = Map.empty, dataChannels = Map.empty,
                         localStream = Some [0, 1]\<rparr>,
      activeCalls = Map.empty, outbox = [], conns = [],
      tracks = [new_track Audio, new_track Video], elog = [], events = []\<rparr>"
  by (simp add: ready_def env0_def initialize_def initLocalStream_def RTCSignaling_new_def Let_def)

section \<open>rejectCall\<close>

text \<open>
  C8, as the specification states it, fails when the secure channel is absent or not
  open: \<open>rejectCall\<close> then hands no message to the channel.  From a coordinator whose
  channel is closed and whose outbox is empty, the outbox is still empty afterwards.
\<close>

theorem rejectCall_closed_channel_counterexample:
  "outbox (ready (Some False)) = []
   \<and> outbox (rejectCall env0 ''bob'' (Some ''c1'') (Some ''busy'') (ready (Some False))) = []"
  by (simp add: ready_eq rejectCall_def sendSignalingMessage_def Let_def)

text \<open>
  C8, amended.  \<open>rejectCall(peerId, callId, reason)\<close> hands exactly one
  \<open>rtc:call-reject\<close> message to the secure channel when the channel is open, none when
  it is absent or not open.  The message goes to \<open>peerId\<close> and carries the call id and
  the supplied reason (\<open>'user-rejected'\<close> when none is supplied).  In both cases the
  call record of the peer is deleted, and the manager, the engine connections and the
  log of engine calls are as before: no transport session is created.
\<close>

theorem rejectCall_effect:
  "outbox (rejectCall e p cid reason s) =
     outbox s @
     (if nodeCrypt s = Some True
      then [(p, empty_message\<lparr>m_type := ''rtc:call-reject'', m_timestamp := Some (now e),
                  m_callId := cid,
                  m_reason := Some (case reason of None \<Rightarrow> ''user-rejected'' | Some x \<Rightarrow> x)\<rparr>)]
      else [])
   \<and> activeCalls (rejectCall e p cid reason s) = (activeCalls s)(p := None)
   \<and> rtcManager (rejectCall e p cid reason s) = rtcManager s
   \<and> conns (rejectCall e p cid reason s) = conns s
   \<and> elog (rejectCall e p cid reason s) = elog s"
  by (simp add: rejectCall_def sendSignalingMessage_def build_message_def empty_message_def Let_def)

theorem rejectCall_effect_witness:
  "outbox (rejectCall env0 ''bob'' (Some ''c1'') (Some ''busy'') (ready (Some True))) =
     [(''bob'', empty_message\<lparr>m_type := ''rtc:call-reject'', m_timestamp := Some 1000,
         m_callId := Some ''c1'', m_reason := Some ''busy''\<rparr>)]
   \<and> activeCalls (rejectCall env0 ''bob'' (Some ''c1'') (Some ''busy'') (ready (Some True))) ''bob'' = None
   \<and> session_of (rejectCall env0 ''bob'' (Some ''c1'') (Some ''busy'') (ready (Some True))) ''bob'' = None"
  using rejectCall_effect [of env0 "''bob''" "Some ''c1''" "Some ''busy''" "ready (Some True)"]
  by (simp add: ready_eq env0_def session_of_def)

section \<open>Dispatch of inbound messages\<close>

text \<open>What a step leaves alone: the call records, and the sessions registered for other peers.\<close>

lemma send_frame [simp]:
  "activeCalls (sendSignalingMessage e p t pl s) = activeCalls s"
  "rtcManager (sendSignalingMessage e p t pl s) = rtcManager s"
  "conns (sendSignalingMessage e p t pl s) = conns s"
  "tracks (sendSignalingMessage e p t pl s) = tracks s"
  "elog (sendSignalingMessage e p t pl s) = elog s"
  "events (sendSignalingMessage e p t pl s) = events s"
  "nodeCrypt (sendSignalingMessage e p t pl s) = nodeCrypt s"
  by (simp_all add: sendSignalingMessage_def Let_def)

lemma createPeerConnection_frame [simp]:
  "activeCalls (snd (createPeerConnection e p i s)) = activeCalls s"
  "q \<noteq> p \<Longrightarrow> session_of (snd (createPeerConnection e p i s)) q = session_of s q"
  by (simp_all add: createPeerConnection_def session_of_def Let_def split: option.splits)

lemma createPeerConnection_elog [simp]:
  "elog (snd (createPeerConnection e p i s)) = elog s"
  by (simp add: createPeerConnection_def Let_def split: option.splits)

lemma RTCManager_handleOffer_frame [simp]:
  "activeCalls (snd (RTCManager_handleOffer e p d s)) = activeCalls s"
  "session_of (snd (RTCManager_handleOffer e p d s)) q = session_of s q"
  by (simp_all add: RTCManager_handleOffer_def session_of_def Let_def split: option.splits)

lemma RTCManager_handleAnswer_frame [simp]:
  "activeCalls (snd (RTCManager_handleAnswer e p d s)) = activeCalls s"
  "session_of (snd (RTCManager_handleAnswer e p d s)) q = session_of s q"
  by (simp_all add: RTCManager_handleAnswer_def session_of_def Let_def split: option.splits)

lemma addIceCandidate_frame [simp]:
  "activeCalls (snd (addIceCandidate e p c s)) = activeCalls s"
  "session_of (snd (addIceCandidate e p c s)) q = session_of s q"
  by (simp_all add: addIceCandidate_def session_of_def Let_def split: option.splits)

lemma closePeerConnection_frame [simp]:
  "activeCalls (snd (closePeerConnection p s)) = activeCalls s"
  "q \<noteq> p \<Longrightarrow> session_of (snd (closePeerConnection p s)) q = session_of s q"
  by (simp_all add: closePeerConnection_def session_of_def Let_def split: option.splits)

lemma handleOffer_snd:
  "snd (handleOffer e p msg s) =
     (case rtcManager s of
        None \<Rightarrow> s
      | Some m \<Rightarrow>
          (case peerConnections m p of
             None \<Rightarrow>
               (case fst (createPeerConnection e p False s) of
                  Inl er \<Rightarrow> snd (createPeerConnection e p False s)
                | Inr h \<Rightarrow>
                    snd (RTCManager_handleOffer e p (Description ''offer'' (m_sdp msg))
                           (snd (createPeerConnection e p False s))))
           | Some h \<Rightarrow> snd (RTCManager_handleOffer e p (Description ''offer'' (m_sdp msg)) s)))"
  by (simp add: handleOffer_def Let_def split: option.splits prod.splits sum.splits)

lemma handleAnswer_snd:
  "snd (handleAnswer e p msg s) =
     snd (RTCManager_handleAnswer e p (Description ''answer'' (m_sdp msg)) s)"
  by (simp add: handleAnswer_def split: prod.splits sum.splits)

lemma handleIceCandidate_snd:
  "snd (handleIceCandidate e p msg s) =
     snd (addIceCandidate e p
            (Some \<lparr>candidate = m_candidate msg, sdpMLineIndex = m_sdpMLineIndex msg,
                   sdpMid = m_sdpMid msg\<rparr>) s)"
  by (simp add: handleIceCandidate_def Let_def split: prod.splits sum.splits)

lemma handleOffer_frame:
  "q \<noteq> p \<Longrightarrow>
     activeCalls (snd (handleOffer e p msg s)) q = activeCalls s q
     \<and> session_of (snd (handleOffer e p msg s)) q = session_of s q"
  by (simp add: handleOffer_snd split: option.splits sum.splits)

lemma handleAnswer_frame:
  "q \<noteq> p \<Longrightarrow>
     activeCalls (snd (handleAnswer e p msg s)) q = activeCalls s q
     \<and> session_of (snd (handleAnswer e p msg s)) q = session_of s q"
  by (simp add: handleAnswer_snd)

lemma handleIceCandidate_frame:
  "q \<noteq> p \<Longrightarrow>
     activeCalls (snd (handleIceCandidate e p msg s)) q = activeCalls s q
     \<and> session_of (snd (handleIceCandidate e p msg s)) q = session_of s q"
  by (simp add: handleIceCandidate_snd)

lemma handleCallRequest_frame:
  "q \<noteq> p \<Longrightarrow>
     activeCalls (snd (handleCallRequest e p msg s)) q = activeCalls s q
     \<and> session_of (snd (handleCallRequest e p msg s)) q = session_of s q"
  by (simp add: handleCallRequest_def session_of_def Let_def)

lemma handleCallAccept_frame:
  "q \<noteq> p \<Longrightarrow>
     activeCalls (snd (handleCallAccept e p msg s)) q = activeCalls s q
     \<and> session_of (snd (handleCallAccept e p msg s)) q = session_of s q"
  by (simp add: handleCallAccept_def session_of_def Let_def)

lemma handleCallReject_frame:
  "q \<noteq> p \<Longrightarrow>
     activeCalls (snd (handleCallReject e p msg s)) q = activeCalls s q
     \<and> session_of (snd (handleCallReject e p msg s)) q = session_of s q"
  by (simp add: handleCallReject_def Let_def) (simp add: session_of_def)

lemma handleCallEnd_frame:
  "q \<noteq> p \<Longrightarrow>
     activeCalls (snd (handleCallEnd e p msg s)) q = activeCalls s q
     \<and> session_of (snd (handleCallEnd e p msg s)) q = session_of s q"
  by (simp add: handleCallEnd_def Let_def) (simp add: session_of_def)

lemma messageHandlers_frame:
  assumes "messageHandlers t = Some h" and "q \<noteq> p"
  shows "activeCalls (snd (h e p msg s)) q = activeCalls s q
       \<and> session_of (snd (h e p msg s)) q = session_of s q"
proof -
  from assms(1) consider
      "h = handleOffer" | "h = handleAnswer" | "h = handleIceCandidate"
    | "h = handleCallRequest" | "h = handleCallAccept" | "h = handleCallReject"
    | "h = handleCallEnd"
    by (auto simp add: messageHandlers_def split: if_splits)
  then show ?thesis
  proof cases
    case 1 then show ?thesis using handleOffer_frame [OF assms(2)] by simp
  next
    case 2 then show ?thesis using handleAnswer_frame [OF assms(2)] by simp
  next
    case 3 then show ?thesis using handleIceCandidate_frame [OF assms(2)] by simp
  next
    case 4 then show ?thesis using handleCallRequest_frame [OF assms(2)] by simp
  next
    case 5 then show ?thesis using handleCallAccept_frame [OF assms(2)] by simp
  next
    case 6 then show ?thesis using handleCallReject_frame [OF assms(2)] by simp
  next
    case 7 then show ?thesis using handleCallEnd_frame [OF assms(2)] by simp
  qed
qed

lemma messageHandlers_registered:
  "messageHandlers t = None \<longleftrightarrow> t \<notin> set registered_types"
  by (simp add: messageHandlers_def registered_types_def)

lemma unregistered_unchanged:
  "tbl (m_type msg) = None \<Longrightarrow> handleSignalingMessage tbl e p (Some msg) s = (Inr (), s)"
  by (simp add: handleSignalingMessage_def lookup_handler_def inherited_member_def
           split: option.splits)

lemma dispatch_catches:
  assumes "\<forall>h. lookup_handler tbl (m_type msg) = Some h \<longrightarrow> fst (h e p msg s) \<noteq> Inl Nullish"
  shows "fst (handleSignalingMessage tbl e p (Some msg) s) = Inr ()"
proof (cases "lookup_handler tbl (m_type msg)")
  case None
  then show ?thesis by (simp add: handleSignalingMessage_def)
next
  case (Some h)
  with assms have "fst (h e p msg s) \<noteq> Inl Nullish" by simp
  then show ?thesis
    using Some by (cases "h e p msg s") (auto simp add: handleSignalingMessage_def split: sum.splits)
qed

lemma dispatch_propagates:
  assumes "lookup_handler tbl (m_type msg) = Some h" and "fst (h e p msg s) = Inl Nullish"
  shows "fst (handleSignalingMessage tbl e p (Some msg) s) = Inl TypeError"
  using assms by (cases "h e p msg s") (simp add: handleSignalingMessage_def)

lemma dispatch_frame:
  assumes "q \<noteq> p"
  shows "activeCalls (snd (handleSignalingMessage messageHandlers e p (Some msg) s)) q = activeCalls s q
       \<and> session_of (snd (handleSignalingMessage messageHandlers e p (Some msg) s)) q = session_of s q"
proof (cases "messageHandlers (m_type msg)")
  case None
  then show ?thesis by (simp add: unregistered_unchanged)
next
  case (Some h)
  have "snd (handleSignalingMessage messageHandlers e p (Some msg) s) = snd (h e p msg s)"
    using Some
    by (simp add: handleSignalingMessage_def lookup_handler_def split: prod.splits sum.splits)
  then show ?thesis using messageHandlers_frame [OF Some assms] by simp
qed

text \<open>
  A built-in handler that throws has touched no connection, no track and no field of
  the manager: the three negotiation handlers never throw, and the four call handlers
  throw either before they do anything but invoke the callback, or from the call of
  \<open>closePeerConnection\<close> on a manager that does not exist.
\<close>

lemma negotiation_handlers_return:
  "fst (handleOffer e p msg s) = Inr ()"
  "fst (handleAnswer e p msg s) = Inr ()"
  "fst (handleIceCandidate e p msg s) = Inr ()"
  by (simp_all add: handleOffer_def handleAnswer_def handleIceCandidate_def Let_def
        split: option.splits prod.splits sum.splits)

lemma closePeerConnection_throws:
  "fst (closePeerConnection p s) = Inl er \<Longrightarrow> snd (closePeerConnection p s) = s"
  by (simp add: closePeerConnection_def Let_def split: option.splits)

lemma call_handlers_failure:
  "fst (handleCallRequest e p msg s) = Inl er \<Longrightarrow>
     conns (snd (handleCallRequest e p msg s)) = conns s
     \<and> tracks (snd (handleCallRequest e p msg s)) = tracks s
     \<and> rtcManager (snd (handleCallRequest e p msg s)) = rtcManager s"
  "fst (handleCallAccept e p msg s) = Inl er \<Longrightarrow>
     conns (snd (handleCallAccept e p msg s)) = conns s
     \<and> tracks (snd (handleCallAccept e p msg s)) = tracks s
     \<and> rtcManager (snd (handleCallAccept e p msg s)) = rtcManager s"
  "fst (handleCallReject e p msg s) = Inl er \<Longrightarrow>
     conns (snd (handleCallReject e p msg s)) = conns s
     \<and> tracks (snd (handleCallReject e p msg s)) = tracks s
     \<and> rtcManager (snd (handleCallReject e p msg s)) = rtcManager s"
  "fst (handleCallEnd e p msg s) = Inl er \<Longrightarrow>
     conns (snd (handleCallEnd e p msg s)) = conns s
     \<and> tracks (snd (handleCallEnd e p msg s)) = tracks s
     \<and> rtcManager (snd (handleCallEnd e p msg s)) = rtcManager s"
  by (auto simp add: handleCallRequest_def handleCallAccept_def handleCallReject_def
        handleCallEnd_def Let_def split: if_splits dest: closePeerConnection_throws)

lemma messageHandlers_failure:
  assumes "messageHandlers t = Some h" and "fst (h e p msg s) = Inl er"
  shows "conns (snd (h e p msg s)) = conns s \<and> tracks (snd (h e p msg s)) = tracks s
       \<and> rtcManager (snd (h e p msg s)) = rtcManager s"
proof -
  from assms(1) consider
      "h = handleOffer" | "h = handleAnswer" | "h = handleIceCandidate"
    | "h = handleCallRequest" | "h = handleCallAccept" | "h = handleCallReject"
    | "h = handleCallEnd"
    by (auto simp add: messageHandlers_def split: if_splits)
  then show ?thesis
  proof cases
    case 1 then show ?thesis using assms(2) by (simp add: negotiation_handlers_return)
  next
    case 2 then show ?thesis using assms(2) by (simp add: negotiation_handlers_return)
  next
    case 3 then show ?thesis using assms(2) by (simp add: negotiation_handlers_return)
  next
    case 4 then show ?thesis using assms(2) call_handlers_failure(1) by simp
  next
    case 5 then show ?thesis using assms(2) call_handlers_failure(2) by simp
  next
    case 6 then show ?thesis using assms(2) call_handlers_failure(3) by simp
  next
    case 7 then show ?thesis using assms(2) call_handlers_failure(4) by simp
  qed
qed

text \<open>
  What the dispatch does keep.  A message whose type has no entry in the handler table
  leaves the whole state unchanged (the members inherited from \<open>Object.prototype\<close>
  included); for the table the constructor builds, this is every type outside
  \<open>registered_types\<close>.  A handler that throws an object is caught, and the method
  returns.  With the built-in table, the call record and the registered session of
  every peer other than the sender are as before, and a handler that throws leaves
  every connection, every track and the manager as before.
\<close>

lemma handleSignalingMessage_isolation:
  "(tbl (m_type msg) = None \<longrightarrow> handleSignalingMessage tbl e p (Some msg) s = (Inr (), s))
   \<and> (m_type msg \<notin> set registered_types \<longrightarrow>
        handleSignalingMessage messageHandlers e p (Some msg) s = (Inr (), s))
   \<and> ((\<forall>h. lookup_handler tbl (m_type msg) = Some h \<longrightarrow> fst (h e p msg s) \<noteq> Inl Nullish) \<longrightarrow>
        fst (handleSignalingMessage tbl e p (Some msg) s) = Inr ())
   \<and> (\<forall>q. q \<noteq> p \<longrightarrow>
        activeCalls (snd (handleSignalingMessage messageHandlers e p (Some msg) s)) q = activeCalls s q
        \<and> session_of (snd (handleSignalingMessage messageHandlers e p (Some msg) s)) q = session_of s q)
   \<and> (\<forall>h er. messageHandlers (m_type msg) = Some h \<longrightarrow> fst (h e p msg s) = Inl er \<longrightarrow>
        conns (snd (handleSignalingMessage messageHandlers e p (Some msg) s)) = conns s
        \<and> tracks (snd (handleSignalingMessage messageHandlers e p (Some msg) s)) = tracks s
        \<and> rtcManager (snd (handleSignalingMessage messageHandlers e p (Some msg) s)) = rtcManager s)"
proof (intro conjI allI impI)
  assume "tbl (m_type msg) = None"
  then show "handleSignalingMessage tbl e p (Some msg) s = (Inr (), s)"
    by (rule unregistered_unchanged)
next
  assume "m_type msg \<notin> set registered_types"
  then have "messageHandlers (m_type msg) = None"
    by (simp add: messageHandlers_registered)
  then show "handleSignalingMessage messageHandlers e p (Some msg) s = (Inr (), s)"
    by (rule unregistered_unchanged)
next
  assume "\<forall>h. lookup_handler tbl (m_type msg) = Some h \<longrightarrow> fst (h e p msg s) \<noteq> Inl Nullish"
  then show "fst (handleSignalingMessage tbl e p (Some msg) s) = Inr ()"
    by (rule dispatch_catches)
next
  fix q assume "q \<noteq> p"
  then show "activeCalls (snd (handleSignalingMessage messageHandlers e p (Some msg) s)) q = activeCalls s q"
    by (simp add: dispatch_frame)
next
  fix q assume "q \<noteq> p"
  then show "session_of (snd (handleSignalingMessage messageHandlers e p (Some msg) s)) q = session_of s q"
    by (simp add: dispatch_frame)
next
  fix h er
  assume h: "messageHandlers (m_type msg) = Some h" and f: "fst (h e p msg s) = Inl er"
  have run: "snd (handleSignalingMessage messageHandlers e p (Some msg) s) = snd (h e p msg s)"
    using h by (simp add: handleSignalingMessage_def lookup_handler_def split: prod.splits sum.splits)
  note kept = messageHandlers_failure [OF h f]
  show "conns (snd (handleSignalingMessage messageHandlers e p (Some msg) s)) = conns s"
    using kept by (simp add: run)
  show "tracks (snd (handleSignalingMessage messageHandlers e p (Some msg) s)) = tracks s"
    using kept by (simp add: run)
  show "rtcManager (snd (handleSignalingMessage messageHandlers e p (Some msg) s)) = rtcManager s"
    using kept by (simp add: run)
qed

text \<open>
  C7.  The specification asks that a failure thrown by a handler be caught inside
  \<open>handleSignalingMessage\<close> and never leave it, and the method wraps the handler in
  \<open>try\<close>/\<open>catch\<close> for that.  The code misses it when the thrown value is \<open>null\<close> or
  \<open>undefined\<close>: the \<open>catch\<close> block reads \<open>error.message\<close>, and the \<open>TypeError\<close> of
  that read leaves the method.  Two runs show it, both on a coordinator with calls to
  \<open>bob\<close> and \<open>carol\<close>: an \<open>rtc:call-request\<close> whose \<open>onCallRequest\<close> callback
  throws \<open>undefined\<close>, and a message of a type registered through
  \<open>registerMessageHandler\<close> with a handler that rejects without a reason.
\<close>

theorem handleSignalingMessage_nullish_propagates:
  "fst (handleSignalingMessage messageHandlers env_throws_undefined ''bob''
          (Some call_request_message) two_calls) = Inl TypeError
   \<and> fst (handleSignalingMessage
             (registerMessageHandler ''app:ping'' rejecting_handler messageHandlers) env0 ''bob''
             (Some ping_message) two_calls) = Inl TypeError"
  by (simp add: handleSignalingMessage_def lookup_handler_def messageHandlers_def
        registerMessageHandler_def rejecting_handler_def handleCallRequest_def
        call_request_message_def ping_message_def env_throws_undefined_def env0_def
        empty_message_def Let_def)

section \<open>endCall\<close>

lemma closures_append [simp]: "closures (xs @ ys) = closures xs @ closures ys"
  by (induction xs rule: closures.induct) simp_all

lemma closures_TrackStop [simp]: "closures (map TrackStop ts) = []"
  by (induction ts) simp_all

lemma endCall_unknown:
  "activeCalls s p = None \<Longrightarrow> endCall e p s = (Inr (), s)"
  by (simp add: endCall_def)

lemma endCall_repeated_unknown:
  "activeCalls s p = None \<Longrightarrow> endCall_repeated es p s = s"
  by (induction es) (simp_all add: endCall_unknown)

lemma endCall_known:
  assumes "activeCalls s p = Some c" and "rtcManager s = Some m"
  shows "fst (endCall e p s) = Inr ()"
    and "activeCalls (snd (endCall e p s)) p = None"
    and "session_of (snd (endCall e p s)) p = None"
    and "outbox (snd (endCall e p s)) =
           outbox s @
           (if nodeCrypt s = Some True
            then [(p, empty_message\<lparr>m_type := ''rtc:call-end'', m_timestamp := Some (now e),
                        m_callId := callId c\<rparr>)]
            else [])"
    and "closures (elog (snd (endCall e p s))) =
           closures (elog s) @ (case peerConnections m p of None \<Rightarrow> [] | Some h \<Rightarrow> [h])"
  using assms
  by (simp_all add: endCall_def closePeerConnection_def sendSignalingMessage_def
        build_message_def empty_message_def session_of_def Let_def split: option.splits)

text \<open>The scenario state \<open>calling\<close>, field by field.\<close>

lemma calling_facts:
  "activeCalls (calling nc) ''bob'' =
     Some \<lparr>callId = Some ''c1'', initiator = True, startTime = 1000, state = ''connecting''\<rparr>"
  "rtcManager (calling nc) =
     Some \<lparr>peerConnections = [''bob'' \<mapsto> 0], dataChannels = [''bob'' \<mapsto> 0],
           localStream = Some [0, 1]\<rparr>"
  "nodeCrypt (calling nc) = nc"
  "outbox (calling (Some False)) = []"
  "elog (calling nc) = [CreateOffer 0, SetLocalDescription 0 (Description ''offer'' (Some ''o1''))]"
  "tracks (calling nc) = [new_track Audio, new_track Video]"
  by (simp_all add: calling_def ready_eq env0_def initiateCall_def createPeerConnection_def
        createOffer_def sendSignalingMessage_def callId_or_generated_def update_conn_def Let_def)

lemma calling_conns:
  "conns (calling nc) =
     [\<lparr>senders = [0, 1], localDescription = Some (Description ''offer'' (Some ''o1'')),
       remoteDescription = None, iceCandidates = [], connClosed = False\<rparr>]"
  by (simp add: calling_def ready_eq env0_def initiateCall_def createPeerConnection_def
        createOffer_def sendSignalingMessage_def callId_or_generated_def update_conn_def Let_def)

lemma now_env0: "now env0 = 1000"
  by (simp add: env0_def)

lemma dropped_facts:
  "activeCalls dropped = activeCalls (calling (Some True))"
  "session_of dropped ''bob'' = None"
  "closures (elog dropped) = [0]"
  "rtcManager dropped =
     Some \<lparr>peerConnections = Map.empty, dataChannels = Map.empty, localStream = Some [0, 1]\<rparr>"
  by (simp_all add: dropped_def onconnectionstatechange_def closePeerConnection_def calling_facts
        calling_conns session_of_def env0_def Let_def)

text \<open>
  C2, as the specification states it, fails in two ways.  With a call record for
  \<open>bob\<close> and a secure channel that is not open, three calls of \<open>endCall('bob')\<close> hand
  no \<open>rtc:call-end\<close> to the channel.  With a call record for \<open>bob\<close> whose connection
  was already closed by the cleanup on \<open>failed\<close>, three calls of \<open>endCall('bob')\<close>
  close nothing: the one \<open>close()\<close> in the log is that of the cleanup.
\<close>

theorem endCall_closed_channel_counterexample:
  "map_option callId (activeCalls (calling (Some False)) ''bob'') = Some (Some ''c1'')
   \<and> outbox (calling (Some False)) = []
   \<and> outbox (endCall_repeated [env0, env0, env0] ''bob'' (calling (Some False))) = []
   \<and> map_option callId (activeCalls dropped ''bob'') = Some (Some ''c1'')
   \<and> closures (elog dropped) = [0]
   \<and> closures (elog (endCall_repeated [env0, env0, env0] ''bob'' dropped)) = [0]"
  by (simp add: calling_facts dropped_facts endCall_def closePeerConnection_def
        sendSignalingMessage_def Let_def)


text \<open>
  C2, amended.  For a peer with a call record, on a coordinator whose manager exists,
  and for every \<open>N \<ge> 1\<close>: \<open>N\<close> successive calls of \<open>endCall(peerId)\<close> end in the
  state the first call ends in.  They hand exactly one \<open>rtc:call-end\<close> with the
  record's call id to the secure channel when the channel is open, and none when it is
  absent or not open.  They call \<open>close()\<close> exactly once, on the connection registered
  for the peer, when one is registered, and on no connection otherwise.  The record and
  the registration are gone afterwards.  Every call of \<open>endCall\<close> on a peer without a
  call record returns normally and changes nothing.
\<close>

theorem endCall_idempotent:
  assumes "activeCalls s p = Some c" and "rtcManager s = Some m" and "es \<noteq> []"
  shows "endCall_repeated es p s = snd (endCall (hd es) p s)
       \<and> outbox (endCall_repeated es p s) =
           outbox s @
           (if nodeCrypt s = Some True
            then [(p, empty_message\<lparr>m_type := ''rtc:call-end'', m_timestamp := Some (now (hd es)),
                        m_callId := callId c\<rparr>)]
            else [])
       \<and> closures (elog (endCall_repeated es p s)) =
           closures (elog s) @ (case peerConnections m p of None \<Rightarrow> [] | Some h \<Rightarrow> [h])
       \<and> activeCalls (endCall_repeated es p s) p = None
       \<and> session_of (endCall_repeated es p s) p = None
       \<and> (\<forall>e' s'. activeCalls s' p = None \<longrightarrow> endCall e' p s' = (Inr (), s'))"
proof -
  obtain e rest where es: "es = e # rest"
    using assms(3) by (cases es) auto
  have once: "endCall_repeated es p s = snd (endCall e p s)"
    using endCall_known(2) [OF assms(1,2)] by (simp add: es endCall_repeated_unknown)
  show ?thesis
    unfolding once
    using endCall_known [OF assms(1,2), of e] endCall_unknown
    by (simp add: es)
qed

theorem endCall_idempotent_witness:
  "endCall_repeated [env0, env0, env0] ''bob'' (calling (Some True))
     = snd (endCall env0 ''bob'' (calling (Some True)))
   \<and> outbox (endCall_repeated [env0, env0, env0] ''bob'' (calling (Some True))) =
       outbox (calling (Some True)) @
       [(''bob'', empty_message\<lparr>m_type := ''rtc:call-end'', m_timestamp := Some 1000,
                   m_callId := Some ''c1''\<rparr>)]
   \<and> closures (elog (endCall_repeated [env0, env0, env0] ''bob'' (calling (Some True)))) = [0]
   \<and> activeCalls (endCall_repeated [env0, env0, env0] ''bob'' (calling (Some True))) ''bob'' = None"
proof -
  have ne: "[env0, env0, env0] \<noteq> []" by simp
  show ?thesis
    apply (insert endCall_idempotent [OF calling_facts(1) calling_facts(2) ne, of "Some True"])
    apply (elim conjE)
    apply (simp add: calling_facts now_env0 del: endCall_repeated.simps)
    done
qed

section \<open>Connectivity reports\<close>

text \<open>
  C3, as the specification states it, fails.  After \<open>initiateCall('bob', 'c1')\<close> the
  call record of \<open>bob\<close> has state \<open>'connecting'\<close>; the engine then reports
  \<open>'connected'\<close> on his connection, the handler returns normally, and the record
  still has state \<open>'connecting'\<close>.
\<close>

theorem connected_leaves_record_counterexample:
  "map_option state (activeCalls (calling (Some True)) ''bob'') = Some ''connecting''
   \<and> fst (onconnectionstatechange env0 ''bob'' ''connected'' (calling (Some True))) = Inr ()
   \<and> map_option state
        (activeCalls (snd (onconnectionstatechange env0 ''bob'' ''connected'' (calling (Some True))))
           ''bob'') = Some ''connecting''"
  by (simp add: calling_facts onconnectionstatechange_def env0_def Let_def)

text \<open>
  C3, amended.  When the engine reports a connectivity state for a peer, the
  coordinator passes the peer and the state to the caller's \<open>onConnectionStateChange\<close>
  callback and never writes \<open>activeCalls\<close>: the record keeps the state
  \<open>'connecting'\<close> and the start time it got from \<open>initiateCall\<close> or \<open>acceptCall\<close>.
  On \<open>'connected'\<close> the invocation of the callback is the only effect.
\<close>

theorem onconnectionstatechange_forwards:
  "activeCalls (snd (onconnectionstatechange e p cs s)) = activeCalls s
   \<and> events (snd (onconnectionstatechange e p cs s)) = events s @ [OnConnectionStateChange p cs]
   \<and> (cs = ''connected'' \<longrightarrow>
        snd (onconnectionstatechange e p cs s)
          = s\<lparr>events := events s @ [OnConnectionStateChange p cs]\<rparr>)"
  by (simp add: onconnectionstatechange_def closePeerConnection_def Let_def split: option.splits)

theorem onconnectionstatechange_forwards_witness:
  "activeCalls (snd (onconnectionstatechange env0 ''bob'' ''connected'' (calling (Some True))))
     = activeCalls (calling (Some True))
   \<and> snd (onconnectionstatechange env0 ''bob'' ''connected'' (calling (Some True)))
     = (calling (Some True))\<lparr>events := events (calling (Some True))
                                   @ [OnConnectionStateChange ''bob'' ''connected'']\<rparr>"
  using onconnectionstatechange_forwards [of env0 "''bob''" "''connected''" "calling (Some True)"]
  by simp

section \<open>createPeerConnection\<close>

text \<open>
  C6, as the specification states it, fails.  \<open>bob\<close> has the session with handle
  \<open>0\<close>; a further \<open>createPeerConnection('bob', false)\<close> returns the new connection
  \<open>1\<close>, not an error, and \<open>1\<close> is now the session registered for \<open>bob\<close>.
\<close>

theorem createPeerConnection_existing_counterexample:
  "session_of (calling (Some True)) ''bob'' = Some 0
   \<and> fst (createPeerConnection env0 ''bob'' False (calling (Some True))) = Inr 1
   \<and> session_of (snd (createPeerConnection env0 ''bob'' False (calling (Some True)))) ''bob'' = Some 1"
  by (simp add: calling_facts calling_conns createPeerConnection_def session_of_def env0_def Let_def)

text \<open>
  C6, amended.  \<open>openSession(peerId, isInitiator)\<close> does not look for an existing
  session.  Whenever the manager exists and the engine constructs the connection, it
  returns the new connection and registers it for the peer, in place of any session
  registered before; the connections that existed before are all still there as they
  were, and no engine call (no \<open>close()\<close> in particular) is made on them.
\<close>

theorem createPeerConnection_replaces:
  assumes "rtcManager s = Some m" and "construct_ok e"
  shows "fst (createPeerConnection e p i s) = Inr (length (conns s))
       \<and> session_of (snd (createPeerConnection e p i s)) p = Some (length (conns s))
       \<and> take (length (conns s)) (conns (snd (createPeerConnection e p i s))) = conns s
       \<and> elog (snd (createPeerConnection e p i s)) = elog s"
  using assms by (simp add: createPeerConnection_def session_of_def Let_def)

theorem createPeerConnection_replaces_witness:
  "fst (createPeerConnection env0 ''bob'' False (calling (Some True))) = Inr 1
   \<and> session_of (snd (createPeerConnection env0 ''bob'' False (calling (Some True)))) ''bob'' = Some 1
   \<and> take 1 (conns (snd (createPeerConnection env0 ''bob'' False (calling (Some True)))))
       = conns (calling (Some True))
   \<and> elog (snd (createPeerConnection env0 ''bob'' False (calling (Some True))))
       = elog (calling (Some True))"
proof -
  have ok: "construct_ok env0" by (simp add: env0_def)
  show ?thesis
    using createPeerConnection_replaces
            [where s = "calling (Some True)" and e = env0 and p = "''bob''" and i = False,
             OF calling_facts(2) ok]
    by (simp add: calling_conns)
qed

section \<open>initiateCall\<close>

lemma session_of_activeCalls_update:
  "session_of (s\<lparr>activeCalls := x\<rparr>) = session_of s"
  by (simp add: session_of_def fun_eq_iff)

lemma createPeerConnection_ok:
  assumes "rtcManager s = Some m" and "construct_ok e"
  shows "createPeerConnection e p i s =
           (Inr (length (conns s)),
            s\<lparr>conns := conns s @
                 [\<lparr>senders = (case localStream m of None \<Rightarrow> [] | Some ts \<Rightarrow> ts),
                   localDescription = None, remoteDescription = None,
                   iceCandidates = [], connClosed = False\<rparr>],
              rtcManager := Some (m\<lparr>peerConnections := (peerConnections m)(p \<mapsto> length (conns s)),
                                    dataChannels := (if i then (dataChannels m)(p \<mapsto> length (conns s))
                                                     else dataChannels m)\<rparr>)\<rparr>)"
  using assms by (simp add: createPeerConnection_def Let_def)

lemma createOffer_ok:
  assumes "session_of s p = Some h" and "offer_sdp e = Some sdp" and "set_local_ok e"
  shows "fst (createOffer e p s) = Inr sdp"
    and "activeCalls (snd (createOffer e p s)) = activeCalls s"
    and "session_of (snd (createOffer e p s)) = session_of s"
  using assms
  by (auto simp add: createOffer_def session_of_def Let_def fun_eq_iff split: option.splits)

lemma createOffer_frame [simp]:
  "rtcManager (snd (createOffer e p s)) = rtcManager s"
  "activeCalls (snd (createOffer e p s)) = activeCalls s"
  by (simp_all add: createOffer_def Let_def split: option.splits)

lemma createPeerConnection_fails:
  "rtcManager s = None \<or> \<not> construct_ok e \<Longrightarrow>
     createPeerConnection e p i s = (Inl (if rtcManager s = None then TypeError else EngineError), s)"
  by (auto simp add: createPeerConnection_def split: option.splits)

text \<open>
  C9, as the specification states it, fails.  \<open>bob\<close> has a call record with call id
  \<open>c1\<close>; \<open>initiateCall('bob', 'c2')\<close> returns \<open>c2\<close>, not an error, the record
  now carries \<open>c2\<close>, and a second connection is registered for \<open>bob\<close>.
\<close>

theorem initiateCall_existing_counterexample:
  "map_option callId (activeCalls (calling (Some True)) ''bob'') = Some (Some ''c1'')
   \<and> fst (initiateCall env0 ''bob'' (Some ''c2'') (calling (Some True))) = Inr ''c2''
   \<and> map_option callId
        (activeCalls (snd (initiateCall env0 ''bob'' (Some ''c2'') (calling (Some True)))) ''bob'')
       = Some (Some ''c2'')
   \<and> session_of (snd (initiateCall env0 ''bob'' (Some ''c2'') (calling (Some True)))) ''bob'' = Some 1"
  by (simp add: calling_facts calling_conns initiateCall_def createPeerConnection_def
        createOffer_def sendSignalingMessage_def callId_or_generated_def update_conn_def
        session_of_def env0_def Let_def)

text \<open>
  C9, amended.  \<open>initiateCall(peerId, callId?)\<close> does not look for an existing call
  session.  Whether or not the peer has a call record, whenever the manager exists and
  the engine constructs the connection, produces the offer and commits it, the call
  returns the call id used (the one supplied, or a generated one when none or the empty
  string is supplied), writes the call record of the peer with that id, the initiator
  role, the current time and the state \<open>'connecting'\<close>, over any record that was
  there, and registers the new connection for the peer.
\<close>

theorem initiateCall_unchecked:
  assumes "rtcManager s = Some m" and "construct_ok e" and "offer_sdp e = Some sdp"
    and "set_local_ok e"
  shows "fst (initiateCall e p given s) = Inr (callId_or_generated e given)
       \<and> activeCalls (snd (initiateCall e p given s)) =
           (activeCalls s)(p \<mapsto>
              \<lparr>callId = Some (callId_or_generated e given), initiator = True,
               startTime = now e, state = ''connecting''\<rparr>)
       \<and> session_of (snd (initiateCall e p given s)) p = Some (length (conns s))"
proof -
  let ?cid = "callId_or_generated e given"
  let ?s1 = "sendSignalingMessage e p ''rtc:call-request'' (empty_message\<lparr>m_callId := Some ?cid\<rparr>) s"
  have m1: "rtcManager ?s1 = Some m" using assms(1) by simp
  obtain s2 where c: "createPeerConnection e p True ?s1 = (Inr (length (conns s)), s2)"
    and reg: "session_of s2 p = Some (length (conns s))"
    and a2: "activeCalls s2 = activeCalls s"
  proof
    show "createPeerConnection e p True ?s1 =
            (Inr (length (conns s)), snd (createPeerConnection e p True ?s1))"
      by (simp add: createPeerConnection_ok [OF m1 assms(2)])
    show "session_of (snd (createPeerConnection e p True ?s1)) p = Some (length (conns s))"
      by (simp add: createPeerConnection_ok [OF m1 assms(2)] session_of_def)
    show "activeCalls (snd (createPeerConnection e p True ?s1)) = activeCalls s"
      by simp
  qed
  obtain s3 where o: "createOffer e p s2 = (Inr sdp, s3)"
    and a3: "activeCalls s3 = activeCalls s2"
    and r3: "session_of s3 = session_of s2"
  proof
    show "createOffer e p s2 = (Inr sdp, snd (createOffer e p s2))"
      using createOffer_ok(1) [OF reg assms(3,4)] by (simp add: prod_eq_iff)
    show "activeCalls (snd (createOffer e p s2)) = activeCalls s2"
      by (rule createOffer_ok(2) [OF reg assms(3,4)])
    show "session_of (snd (createOffer e p s2)) = session_of s2"
      by (rule createOffer_ok(3) [OF reg assms(3,4)])
  qed
  have run: "initiateCall e p given s =
               (Inr ?cid,
                s3\<lparr>activeCalls := (activeCalls s3)(p \<mapsto>
                      \<lparr>callId = Some ?cid, initiator = True, startTime = now e,
                       state = ''connecting''\<rparr>)\<rparr>)"
    by (simp add: initiateCall_def Let_def c o)
  show ?thesis
    by (simp add: run session_of_activeCalls_update a3 a2 r3 reg)
qed

theorem initiateCall_unchecked_witness:
  "fst (initiateCall env0 ''bob'' None (ready (Some True))) = Inr ''call_1000_k3x9q2m7p''
   \<and> activeCalls (snd (initiateCall env0 ''bob'' None (ready (Some True)))) ''bob'' =
       Some \<lparr>callId = Some ''call_1000_k3x9q2m7p'', initiator = True, startTime = 1000,
             state = ''connecting''\<rparr>
   \<and> session_of (snd (initiateCall env0 ''bob'' None (ready (Some True)))) ''bob'' = Some 0"
proof -
  have m: "rtcManager (ready (Some True)) =
             Some \<lparr>peerConnections = Map.empty, dataChannels = Map.empty, localStream = Some [0, 1]\<rparr>"
    by (simp add: ready_eq)
  have ok: "construct_ok env0" "offer_sdp env0 = Some ''o1''" "set_local_ok env0"
    by (simp_all add: env0_def)
  have gen: "callId_or_generated env0 None = ''call_1000_k3x9q2m7p''"
    by code_simp
  show ?thesis
    using initiateCall_unchecked
            [where s = "ready (Some True)" and e = env0 and p = "''bob''" and given = None,
             OF m ok]
    by (simp add: gen now_env0 ready_eq)
qed
text \<open>
  C5, as the specification states it, fails.  No session is registered for \<open>bob\<close>;
  the engine rejects \<open>createOffer\<close>; \<open>initiateCall('bob')\<close> fails with that error, and
  the connection it created is registered for \<open>bob\<close> and has not been closed.
\<close>

theorem initiateCall_offer_rejected_counterexample:
  "session_of (ready (Some True)) ''bob'' = None
   \<and> fst (initiateCall env_no_offer ''bob'' None (ready (Some True))) = Inl EngineError
   \<and> session_of (snd (initiateCall env_no_offer ''bob'' None (ready (Some True)))) ''bob'' = Some 0
   \<and> map connClosed (conns (snd (initiateCall env_no_offer ''bob'' None (ready (Some True))))) = [False]"
  by (simp add: ready_eq env_no_offer_def env0_def initiateCall_def createPeerConnection_def
        createOffer_def sendSignalingMessage_def session_of_def Let_def)

lemma createOffer_fails:
  assumes "session_of s p = Some h" and "offer_sdp e = None \<or> \<not> set_local_ok e"
  shows "fst (createOffer e p s) = Inl EngineError"
    and "conns (snd (createOffer e p s)) = conns s"
    and "closures (elog (snd (createOffer e p s))) = closures (elog s)"
  using assms
  by (auto simp add: createOffer_def session_of_def Let_def split: option.splits)

lemma initiateCall_succeeds:
  assumes "rtcManager s = Some m" and "construct_ok e" and "offer_sdp e = Some sdp"
    and "set_local_ok e"
  shows "fst (initiateCall e p given s) = Inr (callId_or_generated e given)"
proof -
  let ?s1 = "sendSignalingMessage e p ''rtc:call-request''
               (empty_message\<lparr>m_callId := Some (callId_or_generated e given)\<rparr>) s"
  have m1: "rtcManager ?s1 = Some m" using assms(1) by simp
  obtain s2 where c: "createPeerConnection e p True ?s1 = (Inr (length (conns s)), s2)"
    and reg: "session_of s2 p = Some (length (conns s))"
  proof
    show "createPeerConnection e p True ?s1 =
            (Inr (length (conns s)), snd (createPeerConnection e p True ?s1))"
      by (simp add: createPeerConnection_ok [OF m1 assms(2)])
    show "session_of (snd (createPeerConnection e p True ?s1)) p = Some (length (conns s))"
      by (simp add: createPeerConnection_ok [OF m1 assms(2)] session_of_def)
  qed
  obtain s3 where o: "createOffer e p s2 = (Inr sdp, s3)"
  proof
    show "createOffer e p s2 = (Inr sdp, snd (createOffer e p s2))"
      using createOffer_ok(1) [OF reg assms(3,4)] by (simp add: prod_eq_iff)
  qed
  show ?thesis
    by (simp add: initiateCall_def Let_def c o)
qed

text \<open>
  C5, amended.  \<open>initiateCall(peerId)\<close> fails exactly when one of its steps fails: the
  manager does not exist, the engine does not construct the connection, or it rejects
  the offer or the local description.  The error of that step is then surfaced to the
  caller without any cleanup.  The failing call writes no call record (\<open>activeCalls\<close>
  is as before) and calls \<open>close()\<close> on no connection.  When the failure comes after the
  connection was created, that connection stays registered for the peer, open.  When no
  connection could be created, the manager and the connections are as before.
\<close>

theorem initiateCall_failure_no_cleanup:
  "((\<exists>er. fst (initiateCall e p given s) = Inl er) \<longleftrightarrow>
      (rtcManager s = None \<or> \<not> construct_ok e \<or> offer_sdp e = None \<or> \<not> set_local_ok e))
   \<and> (rtcManager s = None \<or> \<not> construct_ok e \<or> offer_sdp e = None \<or> \<not> set_local_ok e \<longrightarrow>
        fst (initiateCall e p given s) = Inl (if rtcManager s = None then TypeError else EngineError)
        \<and> activeCalls (snd (initiateCall e p given s)) = activeCalls s
        \<and> closures (elog (snd (initiateCall e p given s))) = closures (elog s)
        \<and> (rtcManager s \<noteq> None \<and> construct_ok e \<longrightarrow>
             session_of (snd (initiateCall e p given s)) p = Some (length (conns s))
             \<and> length (conns (snd (initiateCall e p given s))) = Suc (length (conns s))
             \<and> \<not> connClosed (conns (snd (initiateCall e p given s)) ! length (conns s)))
        \<and> (rtcManager s = None \<or> \<not> construct_ok e \<longrightarrow>
             rtcManager (snd (initiateCall e p given s)) = rtcManager s
             \<and> conns (snd (initiateCall e p given s)) = conns s))"
proof -
  let ?cid = "callId_or_generated e given"
  let ?s1 = "sendSignalingMessage e p ''rtc:call-request'' (empty_message\<lparr>m_callId := Some ?cid\<rparr>) s"
  let ?failing = "rtcManager s = None \<or> \<not> construct_ok e \<or> offer_sdp e = None \<or> \<not> set_local_ok e"
  have fails: "fst (initiateCall e p given s) = Inl (if rtcManager s = None then TypeError else EngineError)
        \<and> activeCalls (snd (initiateCall e p given s)) = activeCalls s
        \<and> closures (elog (snd (initiateCall e p given s))) = closures (elog s)
        \<and> (rtcManager s \<noteq> None \<and> construct_ok e \<longrightarrow>
             session_of (snd (initiateCall e p given s)) p = Some (length (conns s))
             \<and> length (conns (snd (initiateCall e p given s))) = Suc (length (conns s))
             \<and> \<not> connClosed (conns (snd (initiateCall e p given s)) ! length (conns s)))
        \<and> (rtcManager s = None \<or> \<not> construct_ok e \<longrightarrow>
             rtcManager (snd (initiateCall e p given s)) = rtcManager s
             \<and> conns (snd (initiateCall e p given s)) = conns s)"
    if failing: ?failing
  proof (cases "rtcManager s = None \<or> \<not> construct_ok e")
    case True
    then have "rtcManager ?s1 = None \<or> \<not> construct_ok e" by simp
    from createPeerConnection_fails [OF this, of p True]
    have "initiateCall e p given s = (Inl (if rtcManager s = None then TypeError else EngineError), ?s1)"
      by (simp add: initiateCall_def Let_def)
    then show ?thesis using True by auto
  next
    case False
    then obtain m where m: "rtcManager s = Some m" and ok: "construct_ok e" by auto
    from failing False have offer: "offer_sdp e = None \<or> \<not> set_local_ok e" by blast
    have m1: "rtcManager ?s1 = Some m" using m by simp
    obtain s2 where c: "createPeerConnection e p True ?s1 = (Inr (length (conns s)), s2)"
      and reg: "session_of s2 p = Some (length (conns s))"
      and conns2: "conns s2 =
        conns s @ [\<lparr>senders = (case localStream m of None \<Rightarrow> [] | Some ts \<Rightarrow> ts),
                     localDescription = None, remoteDescription = None,
                     iceCandidates = [], connClosed = False\<rparr>]"
      and a2: "activeCalls s2 = activeCalls s"
      and e2: "elog s2 = elog s"
    proof
      show "createPeerConnection e p True ?s1 =
              (Inr (length (conns s)), snd (createPeerConnection e p True ?s1))"
        by (simp add: createPeerConnection_ok [OF m1 ok])
      show "session_of (snd (createPeerConnection e p True ?s1)) p = Some (length (conns s))"
        by (simp add: createPeerConnection_ok [OF m1 ok] session_of_def)
      show "conns (snd (createPeerConnection e p True ?s1)) =
        conns s @ [\<lparr>senders = (case localStream m of None \<Rightarrow> [] | Some ts \<Rightarrow> ts),
                     localDescription = None, remoteDescription = None,
                     iceCandidates = [], connClosed = False\<rparr>]"
        by (simp add: createPeerConnection_ok [OF m1 ok])
      show "activeCalls (snd (createPeerConnection e p True ?s1)) = activeCalls s" by simp
      show "elog (snd (createPeerConnection e p True ?s1)) = elog s" by simp
    qed
    obtain s3 where o: "createOffer e p s2 = (Inl EngineError, s3)"
      and conns3: "conns s3 = conns s2"
      and e3: "closures (elog s3) = closures (elog s2)"
      and m3: "rtcManager s3 = rtcManager s2"
      and a3: "activeCalls s3 = activeCalls s2"
    proof
      show "createOffer e p s2 = (Inl EngineError, snd (createOffer e p s2))"
        using createOffer_fails(1) [OF reg offer] by (simp add: prod_eq_iff)
      show "conns (snd (createOffer e p s2)) = conns s2"
        by (rule createOffer_fails(2) [OF reg offer])
      show "closures (elog (snd (createOffer e p s2))) = closures (elog s2)"
        by (rule createOffer_fails(3) [OF reg offer])
      show "rtcManager (snd (createOffer e p s2)) = rtcManager s2" by simp
      show "activeCalls (snd (createOffer e p s2)) = activeCalls s2" by simp
    qed
    have run: "initiateCall e p given s = (Inl EngineError, s3)"
      by (simp add: initiateCall_def Let_def c o)
    have reg3: "session_of s3 p = Some (length (conns s))"
      using reg m3 by (simp add: session_of_def)
    show ?thesis
      using m ok by (simp add: run reg3 conns3 conns2 e3 e2 a3 a2)
  qed
  have succeeds: "\<not> (\<exists>er. fst (initiateCall e p given s) = Inl er)" if "\<not> ?failing"
  proof -
    from that obtain m sdp where "rtcManager s = Some m" "construct_ok e"
      "offer_sdp e = Some sdp" "set_local_ok e" by auto
    from initiateCall_succeeds [OF this] show ?thesis by simp
  qed
  show ?thesis
  proof (intro conjI impI iffI)
    assume "\<exists>er. fst (initiateCall e p given s) = Inl er"
    with succeeds show ?failing by (rule_tac ccontr) simp
  next
    assume ?failing
    from fails [OF this] show "\<exists>er. fst (initiateCall e p given s) = Inl er" by simp
  next
    assume f: ?failing
    from fails [OF f] show "fst (initiateCall e p given s) = Inl (if rtcManager s = None then TypeError else EngineError)"
      by simp
    from fails [OF f] show "activeCalls (snd (initiateCall e p given s)) = activeCalls s"
      by simp
    from fails [OF f] show "closures (elog (snd (initiateCall e p given s))) = closures (elog s)"
      by simp
    from fails [OF f] show "rtcManager (snd (initiateCall e p given s)) = rtcManager s"
      if "rtcManager s = None \<or> \<not> construct_ok e" using that by simp
    from fails [OF f] show "conns (snd (initiateCall e p given s)) = conns s"
      if "rtcManager s = None \<or> \<not> construct_ok e" using that by simp
    from fails [OF f] show "session_of (snd (initiateCall e p given s)) p = Some (length (conns s))"
      if "rtcManager s \<noteq> None \<and> construct_ok e" using that by simp
    from fails [OF f] show "length (conns (snd (initiateCall e p given s))) = Suc (length (conns s))"
      if "rtcManager s \<noteq> None \<and> construct_ok e" using that by simp
    from fails [OF f] show "\<not> connClosed (conns (snd (initiateCall e p given s)) ! length (conns s))"
      if "rtcManager s \<noteq> None \<and> construct_ok e" using that by simp
  qed
qed

theorem initiateCall_failure_no_cleanup_witness:
  "fst (initiateCall env_no_offer ''bob'' None (ready (Some True))) = Inl EngineError
   \<and> activeCalls (snd (initiateCall env_no_offer ''bob'' None (ready (Some True))))
       = activeCalls (ready (Some True))
   \<and> closures (elog (snd (initiateCall env_no_offer ''bob'' None (ready (Some True))))) = []
   \<and> session_of (snd (initiateCall env_no_offer ''bob'' None (ready (Some True)))) ''bob'' = Some 0
   \<and> length (conns (snd (initiateCall env_no_offer ''bob'' None (ready (Some True))))) = 1"
proof -
  have failing: "rtcManager (ready (Some True)) = None \<or> \<not> construct_ok env_no_offer
                 \<or> offer_sdp env_no_offer = None \<or> \<not> set_local_ok env_no_offer"
    by (simp add: env_no_offer_def)
  have pre: "rtcManager (ready (Some True)) \<noteq> None \<and> construct_ok env_no_offer"
    by (simp add: ready_eq env_no_offer_def env0_def)
  note T = initiateCall_failure_no_cleanup
             [of env_no_offer "''bob''" None "ready (Some True)", THEN conjunct2, THEN mp, OF failing]
  from T [THEN conjunct1] T [THEN conjunct2, THEN conjunct1]
       T [THEN conjunct2, THEN conjunct2, THEN conjunct1]
       T [THEN conjunct2, THEN conjunct2, THEN conjunct2, THEN conjunct1, THEN mp, OF pre]
  show ?thesis by (simp add: ready_eq)
qed


section \<open>closePeerConnection and the local stream\<close>

lemma stop_track_length [simp]: "length (stop_track t ts) = length ts"
  by (simp add: stop_track_def)

lemma stop_tracks_length [simp]: "length (stop_tracks ss ts) = length ts"
  by (induction ss arbitrary: ts) simp_all

lemma stop_track_nth:
  "k < length ts \<Longrightarrow>
     stop_track t ts ! k = (if k = t then (ts ! k)\<lparr>ended := True\<rparr> else ts ! k)"
  by (simp add: stop_track_def nth_list_update)

lemma stop_tracks_nth:
  "k < length ts \<Longrightarrow>
     stop_tracks ss ts ! k = (if k \<in> set ss then (ts ! k)\<lparr>ended := True\<rparr> else ts ! k)"
  by (induction ss arbitrary: ts) (auto simp add: stop_track_nth)

lemma two_calls_facts:
  "rtcManager two_calls =
     Some \<lparr>peerConnections = [''bob'' \<mapsto> 0, ''carol'' \<mapsto> 1],
           dataChannels = [''bob'' \<mapsto> 0, ''carol'' \<mapsto> 1], localStream = Some [0, 1]\<rparr>"
  "tracks two_calls = [new_track Audio, new_track Video]"
  "conns two_calls =
     [\<lparr>senders = [0, 1], localDescription = Some (Description ''offer'' (Some ''o1'')),
       remoteDescription = None, iceCandidates = [], connClosed = False\<rparr>,
      \<lparr>senders = [0, 1], localDescription = Some (Description ''offer'' (Some ''o1'')),
       remoteDescription = None, iceCandidates = [], connClosed = False\<rparr>]"
  by (simp_all add: two_calls_def calling_facts calling_conns env0_def initiateCall_def
        createPeerConnection_def createOffer_def sendSignalingMessage_def
        callId_or_generated_def update_conn_def Let_def)

text \<open>
  C4, as the specification states it, fails.  There are calls to \<open>bob\<close> and to
  \<open>carol\<close>; both connections send the two tracks of the local stream, which are
  live.  Closing the session of \<open>bob\<close> leaves the session of \<open>carol\<close> registered
  and open and the local stream in place, and both tracks have ended.
\<close>

theorem closePeerConnection_ends_other_session_tracks_counterexample:
  "session_of two_calls ''carol'' = Some 1
   \<and> senders (conns two_calls ! 1) = [0, 1]
   \<and> map ended (tracks two_calls) = [False, False]
   \<and> session_of (snd (closePeerConnection ''bob'' two_calls)) ''carol'' = Some 1
   \<and> map connClosed (conns (snd (closePeerConnection ''bob'' two_calls))) = [True, False]
   \<and> map ended (tracks (snd (closePeerConnection ''bob'' two_calls))) = [True, True]
   \<and> map_option localStream (rtcManager (snd (closePeerConnection ''bob'' two_calls)))
       = Some (Some [0, 1])"
  by (simp add: two_calls_facts closePeerConnection_def session_of_def update_conn_def
        stop_track_def new_track_def Let_def)

lemma local_media_send [simp]:
  "local_media (sendSignalingMessage e q t pl x) = local_media x"
  by (simp add: local_media_def)

lemma local_media_activeCalls [simp]:
  "local_media (x\<lparr>activeCalls := a\<rparr>) = local_media x"
  "local_media (x\<lparr>events := ev\<rparr>) = local_media x"
  by (simp_all add: local_media_def)

lemma local_media_createPeerConnection [simp]:
  "local_media (snd (createPeerConnection e q i x)) = local_media x"
  by (simp add: local_media_def createPeerConnection_def Let_def split: option.splits)

lemma local_media_createOffer [simp]:
  "local_media (snd (createOffer e q x)) = local_media x"
  by (simp add: local_media_def createOffer_def sendSignalingMessage_def Let_def split: option.splits)

lemma local_media_RTCManager_handleOffer [simp]:
  "local_media (snd (RTCManager_handleOffer e q d x)) = local_media x"
  by (simp add: local_media_def RTCManager_handleOffer_def sendSignalingMessage_def Let_def
        split: option.splits)

lemma local_media_RTCManager_handleAnswer [simp]:
  "local_media (snd (RTCManager_handleAnswer e q d x)) = local_media x"
  by (simp add: local_media_def RTCManager_handleAnswer_def Let_def split: option.splits)

lemma local_media_addIceCandidate [simp]:
  "local_media (snd (addIceCandidate e q c x)) = local_media x"
  by (simp add: local_media_def addIceCandidate_def Let_def split: option.splits)

lemma local_media_initiateCall [simp]:
  "local_media (snd (initiateCall e q g x)) = local_media x"
proof -
  let ?x1 = "sendSignalingMessage e q ''rtc:call-request''
               (empty_message\<lparr>m_callId := Some (callId_or_generated e g)\<rparr>) x"
  obtain r2 x2 where c: "createPeerConnection e q True ?x1 = (r2, x2)"
    by (cases "createPeerConnection e q True ?x1")
  have l2: "local_media x2 = local_media x"
    using local_media_createPeerConnection [of e q True ?x1] by (simp add: c)
  obtain r3 x3 where o: "createOffer e q x2 = (r3, x3)"
    by (cases "createOffer e q x2")
  have l3: "local_media x3 = local_media x"
    using local_media_createOffer [of e q x2] by (simp add: o l2)
  show ?thesis
    by (cases r2; cases r3) (simp_all add: initiateCall_def Let_def c o l2 l3)
qed

lemma local_media_acceptCall [simp]:
  "local_media (snd (acceptCall e q c x)) = local_media x"
proof -
  obtain r2 x2 where c: "createPeerConnection e q False x = (r2, x2)"
    by (cases "createPeerConnection e q False x")
  have l2: "local_media x2 = local_media x"
    using local_media_createPeerConnection [of e q False x] by (simp add: c)
  show ?thesis
    by (cases r2) (simp_all add: acceptCall_def Let_def c l2)
qed

lemma local_media_rejectCall [simp]:
  "local_media (rejectCall e q c r x) = local_media x"
  by (simp add: rejectCall_def Let_def)

lemma local_media_handlers [simp]:
  "local_media (snd (handleOffer e q msg x)) = local_media x"
  "local_media (snd (handleAnswer e q msg x)) = local_media x"
  "local_media (snd (handleIceCandidate e q msg x)) = local_media x"
  "local_media (snd (handleCallRequest e q msg x)) = local_media x"
  "local_media (snd (handleCallAccept e q msg x)) = local_media x"
  by (simp_all add: handleOffer_snd handleAnswer_snd handleIceCandidate_snd handleCallRequest_def
        handleCallAccept_def Let_def split: option.splits sum.splits)

lemma local_media_not_closing:
  "\<not> callback_ok e \<or> (cs \<noteq> ''failed'' \<and> cs \<noteq> ''disconnected'') \<Longrightarrow>
     local_media (snd (onconnectionstatechange e q cs x)) = local_media x"
  "\<not> callback_ok e \<Longrightarrow> local_media (snd (handleCallEnd e q msg x)) = local_media x"
  "\<not> callback_ok e \<Longrightarrow> local_media (snd (handleCallReject e q msg x)) = local_media x"
  by (auto simp add: onconnectionstatechange_def handleCallEnd_def handleCallReject_def Let_def)

lemma closePeerConnection_unregistered:
  "session_of x q = None \<Longrightarrow> snd (closePeerConnection q x) = x"
  by (auto simp add: closePeerConnection_def session_of_def split: option.splits)

lemma set_enabled_ended [simp]:
  "map ended (set_enabled k flag ts xs) = map ended xs"
  by (induction ts arbitrary: xs) (simp_all add: map_update list_update_same_conv)

lemma toggle_keeps:
  "map ended (tracks (snd (toggle k flag x))) = map ended (tracks x)
   \<and> map_option localStream (rtcManager (snd (toggle k flag x))) = map_option localStream (rtcManager x)"
  by (simp add: toggle_def split: option.splits)

lemma initialize_stops_nothing:
  "take (length (tracks x)) (tracks (snd (initialize e x))) = tracks x"
  by (simp add: initialize_def initLocalStream_def Let_def split: option.splits)

lemma closing_same:
  assumes "rtcManager s = Some m" and "peerConnections m p = Some h"
  shows "activeCalls s p \<noteq> None \<Longrightarrow>
           media_part (snd (endCall e p s)) = media_part (snd (closePeerConnection p s))"
    and "callback_ok e \<and> (cs = ''failed'' \<or> cs = ''disconnected'') \<Longrightarrow>
           media_part (snd (onconnectionstatechange e p cs s)) = media_part (snd (closePeerConnection p s))"
    and "callback_ok e \<Longrightarrow>
           media_part (snd (handleCallEnd e p msg s)) = media_part (snd (closePeerConnection p s))"
    and "callback_ok e \<Longrightarrow>
           media_part (snd (handleCallReject e p msg s)) = media_part (snd (closePeerConnection p s))"
  using assms
  by (auto simp add: media_part_def endCall_def onconnectionstatechange_def handleCallEnd_def
        handleCallReject_def closePeerConnection_def sendSignalingMessage_def Let_def)

lemma two_calls_record:
  "activeCalls two_calls ''bob'' \<noteq> None"
  by (simp add: two_calls_def calling_facts calling_conns env0_def initiateCall_def
        createPeerConnection_def createOffer_def sendSignalingMessage_def
        callId_or_generated_def update_conn_def Let_def)

text \<open>
  C4, amended.  The tracks of the local stream are stopped by closing the session of
  any one peer and by \<open>stopLocalStream\<close>; the other operations named below stop
  none.  Closing the
  session of one peer stops every local track attached to that session's senders and no
  other track, and leaves the \<open>localStream\<close> handle, the registration of every other
  peer and every other connection as they were; this is what \<open>closePeerConnection\<close>
  does, and \<open>endCall\<close> on a peer with a call record, the cleanup on \<open>failed\<close> and
  \<open>disconnected\<close> and the handlers of \<open>rtc:call-end\<close> and \<open>rtc:call-reject\<close> leave
  the tracks, the connections and the manager exactly as \<open>closePeerConnection\<close> does.
  \<open>stopLocalStream\<close>, on full shutdown, stops all tracks of the stream and clears the
  handle.  Sending, \<open>createPeerConnection\<close>, \<open>createOffer\<close>, the handling of offers,
  answers and candidates, \<open>initiateCall\<close>, \<open>acceptCall\<close>, \<open>rejectCall\<close>, the
  handlers of \<open>rtc:call-request\<close> and \<open>rtc:call-accept\<close>, every other connectivity
  report, \<open>endCall\<close> without a call record and \<open>closePeerConnection\<close> without a
  session leave the tracks and the handle as they are; \<open>toggleAudio\<close> and
  \<open>toggleVideo\<close> stop no track and keep the handle; \<open>initialize\<close> stops no track
  (of these operations it alone, besides \<open>stopLocalStream\<close>, replaces the handle).
\<close>

theorem closePeerConnection_stops_shared_tracks:
  assumes "rtcManager s = Some m" and "peerConnections m p = Some h" and "h < length (conns s)"
  shows "(\<forall>t < length (tracks s).
            tracks (snd (closePeerConnection p s)) ! t =
              (if t \<in> set (senders (conns s ! h)) then (tracks s ! t)\<lparr>ended := True\<rparr>
               else tracks s ! t))
       \<and> length (tracks (snd (closePeerConnection p s))) = length (tracks s)
       \<and> map_option localStream (rtcManager (snd (closePeerConnection p s))) = Some (localStream m)
       \<and> (\<forall>q. q \<noteq> p \<longrightarrow> session_of (snd (closePeerConnection p s)) q = session_of s q)
       \<and> (\<forall>k < length (conns s). k \<noteq> h \<longrightarrow> conns (snd (closePeerConnection p s)) ! k = conns s ! k)
       \<and> (\<forall>ts. localStream m = Some ts \<longrightarrow>
            map_option localStream (rtcManager (snd (stopLocalStream s))) = Some None
            \<and> tracks (snd (stopLocalStream s)) = stop_tracks ts (tracks s))
       \<and> (\<forall>e. activeCalls s p \<noteq> None \<longrightarrow>
            media_part (snd (endCall e p s)) = media_part (snd (closePeerConnection p s)))
       \<and> (\<forall>e cs. callback_ok e \<and> (cs = ''failed'' \<or> cs = ''disconnected'') \<longrightarrow>
            media_part (snd (onconnectionstatechange e p cs s))
              = media_part (snd (closePeerConnection p s)))
       \<and> (\<forall>e msg. callback_ok e \<longrightarrow>
            media_part (snd (handleCallEnd e p msg s)) = media_part (snd (closePeerConnection p s))
            \<and> media_part (snd (handleCallReject e p msg s))
                = media_part (snd (closePeerConnection p s)))
       \<and> (\<forall>e q t pl x. local_media (sendSignalingMessage e q t pl x) = local_media x)
       \<and> (\<forall>e q i x. local_media (snd (createPeerConnection e q i x)) = local_media x)
       \<and> (\<forall>e q x. local_media (snd (createOffer e q x)) = local_media x)
       \<and> (\<forall>e q d x. local_media (snd (RTCManager_handleOffer e q d x)) = local_media x)
       \<and> (\<forall>e q d x. local_media (snd (RTCManager_handleAnswer e q d x)) = local_media x)
       \<and> (\<forall>e q c x. local_media (snd (addIceCandidate e q c x)) = local_media x)
       \<and> (\<forall>e q g x. local_media (snd (initiateCall e q g x)) = local_media x)
       \<and> (\<forall>e q c x. local_media (snd (acceptCall e q c x)) = local_media x)
       \<and> (\<forall>e q c r x. local_media (rejectCall e q c r x) = local_media x)
       \<and> (\<forall>e q msg x. local_media (snd (handleOffer e q msg x)) = local_media x
            \<and> local_media (snd (handleAnswer e q msg x)) = local_media x
            \<and> local_media (snd (handleIceCandidate e q msg x)) = local_media x
            \<and> local_media (snd (handleCallRequest e q msg x)) = local_media x
            \<and> local_media (snd (handleCallAccept e q msg x)) = local_media x)
       \<and> (\<forall>e q cs x. \<not> callback_ok e \<or> (cs \<noteq> ''failed'' \<and> cs \<noteq> ''disconnected'') \<longrightarrow>
            local_media (snd (onconnectionstatechange e q cs x)) = local_media x)
       \<and> (\<forall>e q msg x. \<not> callback_ok e \<longrightarrow>
            local_media (snd (handleCallEnd e q msg x)) = local_media x
            \<and> local_media (snd (handleCallReject e q msg x)) = local_media x)
       \<and> (\<forall>e q x. activeCalls x q = None \<longrightarrow> snd (endCall e q x) = x)
       \<and> (\<forall>q x. session_of x q = None \<longrightarrow> snd (closePeerConnection q x) = x)
       \<and> (\<forall>flag x. map ended (tracks (snd (toggleAudio flag x))) = map ended (tracks x)
            \<and> map_option localStream (rtcManager (snd (toggleAudio flag x)))
                = map_option localStream (rtcManager x)
            \<and> map ended (tracks (snd (toggleVideo flag x))) = map ended (tracks x)
            \<and> map_option localStream (rtcManager (snd (toggleVideo flag x)))
                = map_option localStream (rtcManager x))
       \<and> (\<forall>e x. take (length (tracks x)) (tracks (snd (initialize e x))) = tracks x)"
proof -
  have closing:
    "(\<forall>t < length (tracks s).
            tracks (snd (closePeerConnection p s)) ! t =
              (if t \<in> set (senders (conns s ! h)) then (tracks s ! t)\<lparr>ended := True\<rparr>
               else tracks s ! t))
       \<and> length (tracks (snd (closePeerConnection p s))) = length (tracks s)
       \<and> map_option localStream (rtcManager (snd (closePeerConnection p s))) = Some (localStream m)
       \<and> (\<forall>q. q \<noteq> p \<longrightarrow> session_of (snd (closePeerConnection p s)) q = session_of s q)
       \<and> (\<forall>k < length (conns s). k \<noteq> h \<longrightarrow> conns (snd (closePeerConnection p s)) ! k = conns s ! k)
       \<and> (\<forall>ts. localStream m = Some ts \<longrightarrow>
            map_option localStream (rtcManager (snd (stopLocalStream s))) = Some None
            \<and> tracks (snd (stopLocalStream s)) = stop_tracks ts (tracks s))"
    using assms
    by (simp add: closePeerConnection_def stopLocalStream_def session_of_def update_conn_def
          stop_tracks_nth Let_def)
  have through:
    "(\<forall>e. activeCalls s p \<noteq> None \<longrightarrow>
            media_part (snd (endCall e p s)) = media_part (snd (closePeerConnection p s)))
       \<and> (\<forall>e cs. callback_ok e \<and> (cs = ''failed'' \<or> cs = ''disconnected'') \<longrightarrow>
            media_part (snd (onconnectionstatechange e p cs s))
              = media_part (snd (closePeerConnection p s)))
       \<and> (\<forall>e msg. callback_ok e \<longrightarrow>
            media_part (snd (handleCallEnd e p msg s)) = media_part (snd (closePeerConnection p s))
            \<and> media_part (snd (handleCallReject e p msg s))
                = media_part (snd (closePeerConnection p s)))"
    using closing_same [OF assms(1,2)] by simp
  have others:
    "(\<forall>e q t pl x. local_media (sendSignalingMessage e q t pl x) = local_media x)
       \<and> (\<forall>e q i x. local_media (snd (createPeerConnection e q i x)) = local_media x)
       \<and> (\<forall>e q x. local_media (snd (createOffer e q x)) = local_media x)
       \<and> (\<forall>e q d x. local_media (snd (RTCManager_handleOffer e q d x)) = local_media x)
       \<and> (\<forall>e q d x. local_media (snd (RTCManager_handleAnswer e q d x)) = local_media x)
       \<and> (\<forall>e q c x. local_media (snd (addIceCandidate e q c x)) = local_media x)
       \<and> (\<forall>e q g x. local_media (snd (initiateCall e q g x)) = local_media x)
       \<and> (\<forall>e q c x. local_media (snd (acceptCall e q c x)) = local_media x)
       \<and> (\<forall>e q c r x. local_media (rejectCall e q c r x) = local_media x)
       \<and> (\<forall>e q msg x. local_media (snd (handleOffer e q msg x)) = local_media x
            \<and> local_media (snd (handleAnswer e q msg x)) = local_media x
            \<and> local_media (snd (handleIceCandidate e q msg x)) = local_media x
            \<and> local_media (snd (handleCallRequest e q msg x)) = local_media x
            \<and> local_media (snd (handleCallAccept e q msg x)) = local_media x)"
    by simp
  have rest:
    "(\<forall>e q cs x. \<not> callback_ok e \<or> (cs \<noteq> ''failed'' \<and> cs \<noteq> ''disconnected'') \<longrightarrow>
            local_media (snd (onconnectionstatechange e q cs x)) = local_media x)
       \<and> (\<forall>e q msg x. \<not> callback_ok e \<longrightarrow>
            local_media (snd (handleCallEnd e q msg x)) = local_media x
            \<and> local_media (snd (handleCallReject e q msg x)) = local_media x)
       \<and> (\<forall>e q x. activeCalls x q = None \<longrightarrow> snd (endCall e q x) = x)
       \<and> (\<forall>q x. session_of x q = None \<longrightarrow> snd (closePeerConnection q x) = x)
       \<and> (\<forall>flag x. map ended (tracks (snd (toggleAudio flag x))) = map ended (tracks x)
            \<and> map_option localStream (rtcManager (snd (toggleAudio flag x)))
                = map_option localStream (rtcManager x)
            \<and> map ended (tracks (snd (toggleVideo flag x))) = map ended (tracks x)
            \<and> map_option localStream (rtcManager (snd (toggleVideo flag x)))
                = map_option localStream (rtcManager x))
       \<and> (\<forall>e x. take (length (tracks x)) (tracks (snd (initialize e x))) = tracks x)"
    using local_media_not_closing endCall_unknown closePeerConnection_unregistered toggle_keeps
          initialize_stops_nothing
    by (simp add: toggleAudio_def toggleVideo_def)
  show ?thesis
    apply (insert closing through others rest)
    apply (elim conjE)
    apply (intro conjI)
    apply assumption+
    done
qed

theorem closePeerConnection_stops_shared_tracks_witness:
  "tracks (snd (closePeerConnection ''bob'' two_calls)) ! 0 = (tracks two_calls ! 0)\<lparr>ended := True\<rparr>
   \<and> length (tracks (snd (closePeerConnection ''bob'' two_calls))) = 2
   \<and> map_option localStream (rtcManager (snd (closePeerConnection ''bob'' two_calls)))
       = Some (Some [0, 1])
   \<and> session_of (snd (closePeerConnection ''bob'' two_calls)) ''carol'' = Some 1
   \<and> conns (snd (closePeerConnection ''bob'' two_calls)) ! 1 = conns two_calls ! 1
   \<and> map_option localStream (rtcManager (snd (stopLocalStream two_calls))) = Some None
   \<and> media_part (snd (endCall env0 ''bob'' two_calls))
       = media_part (snd (closePeerConnection ''bob'' two_calls))
   \<and> media_part (snd (onconnectionstatechange env0 ''bob'' ''failed'' two_calls))
       = media_part (snd (closePeerConnection ''bob'' two_calls))"
proof -
  have reg: "peerConnections \<lparr>peerConnections = [''bob'' \<mapsto> 0, ''carol'' \<mapsto> 1],
           dataChannels = [''bob'' \<mapsto> 0, ''carol'' \<mapsto> 1], localStream = Some [0, 1]\<rparr> ''bob'' = Some 0"
    by simp
  have h: "0 < length (conns two_calls)" by (simp add: two_calls_facts)
  note T = closePeerConnection_stops_shared_tracks [OF two_calls_facts(1) reg h]
  have t0: "(0::nat) < length (tracks two_calls)" by (simp add: two_calls_facts)
  have other: "''carol'' \<noteq> ''bob''" by simp
  have k1: "(1::nat) < length (conns two_calls)" "(1::nat) \<noteq> 0" by (simp_all add: two_calls_facts)
  have ls: "localStream \<lparr>peerConnections = [''bob'' \<mapsto> 0, ''carol'' \<mapsto> 1],
           dataChannels = [''bob'' \<mapsto> 0, ''carol'' \<mapsto> 1], localStream = Some [0, 1]\<rparr> = Some [0, 1]"
    by simp
  have failed: "callback_ok env0 \<and> (''failed'' = ''failed'' \<or> ''failed'' = ''disconnected'')"
    by (simp add: env0_def)
  note R = T [THEN conjunct2, THEN conjunct2, THEN conjunct2, THEN conjunct2, THEN conjunct2]
  from T [THEN conjunct1, THEN spec, THEN mp, OF t0]
       T [THEN conjunct2, THEN conjunct1]
       T [THEN conjunct2, THEN conjunct2, THEN conjunct1]
       T [THEN conjunct2, THEN conjunct2, THEN conjunct2, THEN conjunct1, THEN spec, THEN mp, OF other]
       T [THEN conjunct2, THEN conjunct2, THEN conjunct2, THEN conjunct2, THEN conjunct1,
          THEN spec, THEN mp, OF k1(1), THEN mp, OF k1(2)]
       R [THEN conjunct1, THEN spec, THEN mp, OF ls, THEN conjunct1]
       R [THEN conjunct2, THEN conjunct1, THEN spec, THEN mp, OF two_calls_record, of env0]
       R [THEN conjunct2, THEN conjunct2, THEN conjunct1, THEN spec, THEN spec, THEN mp, OF failed]
  show ?thesis
    by (simp add: two_calls_facts session_of_def)
qed


section \<open>Remote connectivity candidates\<close>

lemma candidates_given_append [simp]:
  "candidates_given (xs @ ys) = candidates_given xs @ candidates_given ys"
  by (induction xs rule: candidates_given.induct) simp_all

lemma RTCManager_handleOffer_candidates [simp]:
  "candidates_given (elog (snd (RTCManager_handleOffer e p d s))) = candidates_given (elog s)"
  by (simp add: RTCManager_handleOffer_def Let_def split: option.splits)

lemma RTCManager_handleAnswer_candidates [simp]:
  "candidates_given (elog (snd (RTCManager_handleAnswer e p d s))) = candidates_given (elog s)"
  by (simp add: RTCManager_handleAnswer_def Let_def split: option.splits)

lemma handleOffer_candidates:
  "candidates_given (elog (snd (handleOffer e p msg s))) = candidates_given (elog s)"
  by (simp add: handleOffer_snd split: option.splits sum.splits)

lemma handleAnswer_candidates:
  "candidates_given (elog (snd (handleAnswer e p msg s))) = candidates_given (elog s)"
  by (simp add: handleAnswer_snd)

lemma handleIceCandidate_registered:
  "session_of s p = Some h \<Longrightarrow>
     elog (snd (handleIceCandidate e p msg s)) =
       elog s @ [AddIceCandidate h \<lparr>candidate = m_candidate msg,
                   sdpMLineIndex = m_sdpMLineIndex msg, sdpMid = m_sdpMid msg\<rparr>]"
  by (auto simp add: handleIceCandidate_snd addIceCandidate_def session_of_def Let_def
        split: option.splits)

lemma handleIceCandidate_unregistered:
  "session_of s p = None \<Longrightarrow> snd (handleIceCandidate e p msg s) = s"
  by (auto simp add: handleIceCandidate_snd addIceCandidate_def session_of_def Let_def
        split: option.splits)

lemma accepted_facts:
  "rtcManager accepted =
     Some \<lparr>peerConnections = [''bob'' \<mapsto> 0], dataChannels = Map.empty,
           localStream = Some [0, 1]\<rparr>"
  "conns accepted =
     [\<lparr>senders = [0, 1], localDescription = None, remoteDescription = None,
       iceCandidates = [], connClosed = False\<rparr>]"
  "elog accepted = []"
  "nodeCrypt accepted = Some True"
  by (simp_all add: accepted_def ready_eq env0_def acceptCall_def createPeerConnection_def
        sendSignalingMessage_def Let_def)

lemma dispatch_ice:
  "snd (handleSignalingMessage messageHandlers e p (Some ice_message) s)
     = snd (handleIceCandidate e p ice_message s)"
  by (simp add: handleSignalingMessage_def lookup_handler_def messageHandlers_def
        ice_message_def split: prod.splits sum.splits)

lemma dispatch_offer:
  "snd (handleSignalingMessage messageHandlers e p (Some offer_message) s)
     = snd (handleOffer e p offer_message s)"
  by (simp add: handleSignalingMessage_def lookup_handler_def messageHandlers_def
        offer_message_def split: prod.splits sum.splits)

lemma ice_message_fields:
  "\<lparr>candidate = m_candidate ice_message, sdpMLineIndex = m_sdpMLineIndex ice_message,
    sdpMid = m_sdpMid ice_message\<rparr> = ice1"
  "m_sdp offer_message = Some ''o9''"
  by (simp_all add: ice_message_def offer_message_def ice1_def empty_message_def)

lemma early_candidate_facts:
  "rtcManager early_candidate = rtcManager accepted"
  "elog early_candidate = [AddIceCandidate 0 ice1]"
  "map remoteDescription (conns early_candidate) = [None]"
  "conns early_candidate =
     [\<lparr>senders = [0, 1], localDescription = None, remoteDescription = None,
       iceCandidates = [ice1], connClosed = False\<rparr>]"
  "nodeCrypt early_candidate = Some True"
  by (simp_all add: early_candidate_def dispatch_ice handleIceCandidate_snd ice_message_fields
        addIceCandidate_def accepted_facts update_conn_def env0_def Let_def)

text \<open>
  C1, as the specification states it, fails.  \<open>bob\<close> has a session without a remote
  description.  His candidate arrives: the session still has no remote description, and
  the engine has already been given the candidate.  His offer arrives: the remote
  description is set after the candidate, and no candidate is given to the engine
  afterwards.  When the same candidate arrives before any session exists for \<open>bob\<close>,
  the engine is never given it, not even after the offer.
\<close>

theorem candidate_before_remote_description_counterexample:
  "map remoteDescription (conns accepted) = [None]
   \<and> elog accepted = []
   \<and> map remoteDescription (conns early_candidate) = [None]
   \<and> elog early_candidate = [AddIceCandidate 0 ice1]
   \<and> elog then_offer =
       [AddIceCandidate 0 ice1,
        SetRemoteDescription 0 (Description ''offer'' (Some ''o9'')),
        CreateAnswer 0,
        SetLocalDescription 0 (Description ''answer'' (Some ''a1''))]
   \<and> candidates_given (elog unheard_candidate) = []"
  by (simp add: accepted_facts early_candidate_facts then_offer_def unheard_candidate_def
        dispatch_ice dispatch_offer handleOffer_snd handleIceCandidate_snd ice_message_fields
        RTCManager_handleOffer_def createPeerConnection_def addIceCandidate_def
        sendSignalingMessage_def update_conn_def ready_eq env0_def Let_def)

text \<open>
  C1, amended.  There is no buffer of candidates.  A remote candidate received for a
  peer with a registered session is handed to the engine at once, in the step that
  receives it, whether or not a remote description has been applied.  A candidate
  received for a peer without a registered session is dropped: the state is unchanged.
  Handling an offer or an answer afterwards hands no candidate to the engine.
\<close>

theorem handleIceCandidate_immediate:
  "(\<forall>h. session_of s p = Some h \<longrightarrow>
        elog (snd (handleIceCandidate e p msg s)) =
          elog s @ [AddIceCandidate h \<lparr>candidate = m_candidate msg,
                      sdpMLineIndex = m_sdpMLineIndex msg, sdpMid = m_sdpMid msg\<rparr>])
   \<and> (session_of s p = None \<longrightarrow> snd (handleIceCandidate e p msg s) = s)
   \<and> candidates_given (elog (snd (handleOffer e p msg s))) = candidates_given (elog s)
   \<and> candidates_given (elog (snd (handleAnswer e p msg s))) = candidates_given (elog s)"
  by (simp add: handleIceCandidate_registered handleIceCandidate_unregistered
        handleOffer_candidates handleAnswer_candidates)

theorem handleIceCandidate_immediate_witness:
  "elog (snd (handleIceCandidate env0 ''bob'' ice_message accepted)) = [AddIceCandidate 0 ice1]
   \<and> snd (handleIceCandidate env0 ''bob'' ice_message (ready (Some True))) = ready (Some True)
   \<and> candidates_given (elog (snd (handleOffer env0 ''bob'' offer_message early_candidate)))
       = [(0, ice1)]"
proof -
  have reg: "session_of accepted ''bob'' = Some 0"
    by (simp add: session_of_def accepted_facts)
  have unreg: "session_of (ready (Some True)) ''bob'' = None"
    by (simp add: session_of_def ready_eq)
  from handleIceCandidate_immediate [of accepted "''bob''" env0 ice_message,
         THEN conjunct1, THEN spec, THEN mp, OF reg]
       handleIceCandidate_immediate [of "ready (Some True)" "''bob''" env0 ice_message,
         THEN conjunct2, THEN conjunct1, THEN mp, OF unreg]
       handleIceCandidate_immediate [of early_candidate "''bob''" env0 offer_message,
         THEN conjunct2, THEN conjunct2, THEN conjunct1]
  show ?thesis
    by (simp add: accepted_facts early_candidate_facts ice_message_fields)
qed

end
